theory Spec2Isabelle
  imports Complex_Main
begin

section \<open>The input shortcut matcher of \<open>libs/ui/input/kis_shortcut_matcher.cpp\<close>\<close>

text \<open>
  The matcher is a single-threaded state machine. Its private data (\<open>m_d\<close>) becomes the
  record \<open>matcher\<close>; every member function becomes a function from the state to the new
  state (and the returned \<open>bool\<close>). The calls the matcher makes on the registered actions
  are its only output: they are appended, in program order, to the ghost field \<open>calls\<close>.

  The shortcut classes (\<open>KisSingleActionShortcut\<close>, \<open>KisStrokeShortcut\<close>,
  \<open>KisTouchShortcut\<close>, \<open>KisNativeGestureShortcut\<close>) are declared in headers outside
  the translated file. The matcher only calls their methods, so a shortcut object is a
  record of its address (pointer identity) and of the methods the matcher calls, as
  functions. The matcher never mutates a shortcut.

  The \<open>const\<close> queries \<open>supportsHiResInputEvents\<close>, \<open>sanityCheckModifiersCorrectness\<close> and
  \<open>debugPressedKeys\<close> change nothing and call no lifecycle method; they are left out.
  The counters are \<open>int\<close>, read as mathematical integers.
\<close>

subsection \<open>Qt value types\<close>

type_synonym key = nat \<comment> \<open>\<open>Qt::Key\<close>\<close>
type_synonym button = nat \<comment> \<open>\<open>Qt::MouseButton\<close>\<close>
type_synonym wheel_action = nat \<comment> \<open>\<open>KisSingleActionShortcut::WheelAction\<close>\<close>
type_synonym mask = nat \<comment> \<open>\<open>KisInputActionGroupsMask\<close>\<close>
type_synonym key_sequence = "nat list" \<comment> \<open>\<open>QKeySequence\<close>\<close>
type_synonym action = nat \<comment> \<open>the address of a \<open>KisAbstractInputAction\<close>\<close>
type_synonym addr = nat \<comment> \<open>the address of a shortcut object\<close>
type_synonym point = "real \<times> real" \<comment> \<open>\<open>QPointF\<close>: two finite doubles, each given by its value\<close>

definition LeftButton :: button where
  "LeftButton = 1" \<comment> \<open>\<open>Qt::LeftButton = 0x00000001\<close>\<close>

text \<open>The template parameter \<open>T\<close> of \<open>tryRunSingleActionShortcutImpl\<close> is a key or a wheel action.\<close>

datatype trigger = KeyTrigger key | WheelTrigger wheel_action

datatype touch_point_state =
  TouchPointPressed | TouchPointMoved | TouchPointStationary | TouchPointReleased

datatype touch_point = TouchPoint (pos: point) (startPos: point)

datatype touch_type = TouchBegin | TouchUpdate | TouchEnd | TouchCancel

text \<open>
  A \<open>QTouchEvent\<close>: its type, its device and modifiers (one opaque number), the flags
  \<open>touchPointStates()\<close> and the list \<open>touchPoints()\<close>.
\<close>

datatype touch_event =
  QTouchEvent (te_type: touch_type) (te_device: nat)
    (touchPointStates: "touch_point_state set") (touchPoints: "touch_point list")

text \<open>
  A \<open>QEvent\<close> as the actions receive it: a pointer, wheel or tablet event delivered by the
  caller (opaque), a native gesture event (opaque), a touch event, or the button-release
  event that a stroke shortcut synthesises at a position. An event pointer that may be
  null is a \<open>qevent option\<close>.
\<close>

datatype qevent =
  QPointerEvent nat
| QNativeGestureEvent nat
| QTouch touch_event
| QFakeEndEvent addr point

subsection \<open>Actions and the log of calls\<close>

datatype action_call =
  Activate int
| Begin int "qevent option"
| InputEvent "qevent option"
| End "qevent option"
| Deactivate int

text \<open>
  A logged call is the receiver \<open>shortcut->action()\<close> (null is \<open>None\<close>) and the method
  with its arguments.
\<close>

type_synonym call = "action option \<times> action_call"

subsection \<open>Shortcut objects\<close>

record single_action_shortcut =
  sa_addr :: addr
  sa_action :: "action option"
  sa_shortcutIndex :: int
  sa_priority :: int
  sa_isAvailable :: "mask \<Rightarrow> bool"
  sa_match :: "key set \<Rightarrow> trigger \<Rightarrow> bool"
  sa_conflictsWith :: "key_sequence \<Rightarrow> bool"

record stroke_shortcut =
  ss_addr :: addr
  ss_action :: "action option"
  ss_shortcutIndex :: int
  ss_priority :: int
  ss_isAvailable :: "mask \<Rightarrow> bool"
  ss_matchReady :: "key set \<Rightarrow> button set \<Rightarrow> bool"
  ss_matchBegin :: "button \<Rightarrow> bool"
  ss_fakeEndEvent :: "point \<Rightarrow> qevent"

record touch_shortcut =
  ts_addr :: addr
  ts_action :: "action option"
  ts_shortcutIndex :: int
  ts_priority :: int
  ts_isAvailable :: "mask \<Rightarrow> bool"
  ts_matchDragType :: "touch_event option \<Rightarrow> bool"
  ts_matchTapType :: "touch_event option \<Rightarrow> bool"

record native_gesture_shortcut =
  ng_addr :: addr
  ng_action :: "action option"
  ng_shortcutIndex :: int
  ng_priority :: int
  ng_match :: "nat \<Rightarrow> bool"

subsection \<open>The private data of the matcher\<close>

text \<open>
  The fields of \<open>KisShortcutMatcher::Private\<close> under their own names. A pointer to a
  shortcut is the shortcut record (which carries its address); a null pointer is \<open>None\<close>.
  \<open>actionGroupMask\<close> is the value the callback returns. \<open>android\<close> is the build flag
  \<open>Q_OS_ANDROID\<close>. Ghost fields: \<open>calls\<close>, the log of the calls made on actions, and
  \<open>deleted\<close>, the addresses \<open>qDeleteAll\<close> has freed.
\<close>

record matcher =
  singleActionShortcuts :: "single_action_shortcut list"
  suppressedSingleActionShortcuts :: "addr set"
  strokeShortcuts :: "stroke_shortcut list"
  touchShortcuts :: "touch_shortcut list"
  nativeGestureShortcuts :: "native_gesture_shortcut list"
  keys :: "key set"
  buttons :: "button set"
  runningShortcut :: "stroke_shortcut option"
  readyShortcut :: "stroke_shortcut option"
  candidateShortcuts :: "stroke_shortcut list"
  touchShortcut :: "touch_shortcut option"
  nativeGestureShortcut :: "native_gesture_shortcut option"
  lastTouchPoints :: "touch_point list"
  maxTouchPoints :: int
  matchingIteration :: int
  isTouchDragDetected :: bool
  bestCandidateTouchEvent :: "touch_event option"
  actionGroupMask :: mask
  suppressAllActions :: bool
  cursorEntered :: bool
  usingTouch :: bool
  usingNativeGesture :: bool
  recursiveCounter :: int
  brokenByRecursion :: int
  android :: bool
  calls :: "call list"
  deleted :: "addr set"

text \<open>
  The constructor \<open>Private()\<close>. The initial mask \<open>AllActionGroup\<close> is declared in a
  header outside the translated file and is a parameter here, as is the build flag.
\<close>

definition Private_init :: "bool \<Rightarrow> mask \<Rightarrow> matcher" where
  "Private_init is_android allActionGroup =
     \<lparr> singleActionShortcuts = [], suppressedSingleActionShortcuts = {},
       strokeShortcuts = [], touchShortcuts = [], nativeGestureShortcuts = [],
       keys = {}, buttons = {},
       runningShortcut = None, readyShortcut = None, candidateShortcuts = [],
       touchShortcut = None, nativeGestureShortcut = None, lastTouchPoints = [],
       maxTouchPoints = 0, matchingIteration = 0, isTouchDragDetected = False,
       bestCandidateTouchEvent = None,
       actionGroupMask = allActionGroup,
       suppressAllActions = False, cursorEntered = False,
       usingTouch = False, usingNativeGesture = False,
       recursiveCounter = 0, brokenByRecursion = 0,
       android = is_android, calls = [], deleted = {} \<rparr>"

subsection \<open>Calls on actions\<close>

definition invoke :: "action option \<Rightarrow> action_call \<Rightarrow> matcher \<Rightarrow> matcher" where
  "invoke a c s = s\<lparr>calls := calls s @ [(a, c)]\<rparr>"

text \<open>
  \<open>action->begin(index, event)\<close> may pump an event loop (a modal dialog) and so re-enter
  the matcher before it returns. \<open>reent\<close> is what the re-entrant calls do to the matcher
  while \<open>begin\<close> runs; it is the identity when \<open>begin\<close> does not re-enter. The other
  four methods are taken not to re-enter.
\<close>

definition invoke_begin ::
  "(matcher \<Rightarrow> matcher) \<Rightarrow> action option \<Rightarrow> int \<Rightarrow> qevent option \<Rightarrow> matcher \<Rightarrow> matcher" where
  "invoke_begin reent a idx ev s = reent (invoke a (Begin idx ev) s)"

subsection \<open>The recursion notifier and guard\<close>

definition RecursionNotifier :: "matcher \<Rightarrow> matcher" where
  "RecursionNotifier s =
     s\<lparr>recursiveCounter := recursiveCounter s + 1, brokenByRecursion := brokenByRecursion s + 1\<rparr>"

definition RecursionNotifier_exit :: "matcher \<Rightarrow> matcher" where
  "RecursionNotifier_exit s = s\<lparr>recursiveCounter := recursiveCounter s - 1\<rparr>"

definition isInRecursion :: "matcher \<Rightarrow> bool" where
  "isInRecursion s = (recursiveCounter s > 1)"

definition RecursionGuard :: "matcher \<Rightarrow> matcher" where
  "RecursionGuard s = s\<lparr>brokenByRecursion := 0\<rparr>"

definition guard_brokenByRecursion :: "matcher \<Rightarrow> bool" where
  "guard_brokenByRecursion s = (brokenByRecursion s > 0)"

definition actionsSuppressed :: "matcher \<Rightarrow> bool" where
  "actionsSuppressed s =
     (if android s then False else (suppressAllActions s \<or> \<not> cursorEntered s))"

definition actionsSuppressedIgnoreFocus :: "matcher \<Rightarrow> bool" where
  "actionsSuppressedIgnoreFocus s = suppressAllActions s"

definition isUsingTouch :: "matcher \<Rightarrow> bool" where
  "isUsingTouch s = (usingTouch s \<or> usingNativeGesture s)"

subsection \<open>Registration and simple setters\<close>

definition hasRunningShortcut :: "matcher \<Rightarrow> bool" where
  "hasRunningShortcut s = (runningShortcut s \<noteq> None)"

definition addShortcut_single :: "single_action_shortcut \<Rightarrow> matcher \<Rightarrow> matcher" where
  "addShortcut_single sh s = s\<lparr>singleActionShortcuts := singleActionShortcuts s @ [sh]\<rparr>"

definition addShortcut_stroke :: "stroke_shortcut \<Rightarrow> matcher \<Rightarrow> matcher" where
  "addShortcut_stroke sh s = s\<lparr>strokeShortcuts := strokeShortcuts s @ [sh]\<rparr>"

definition addShortcut_touch :: "touch_shortcut \<Rightarrow> matcher \<Rightarrow> matcher" where
  "addShortcut_touch sh s = s\<lparr>touchShortcuts := touchShortcuts s @ [sh]\<rparr>"

definition addShortcut_nativeGesture :: "native_gesture_shortcut \<Rightarrow> matcher \<Rightarrow> matcher" where
  "addShortcut_nativeGesture sh s = s\<lparr>nativeGestureShortcuts := nativeGestureShortcuts s @ [sh]\<rparr>"

definition reset :: "matcher \<Rightarrow> matcher" where
  "reset s = s\<lparr>keys := {}, buttons := {}\<rparr>"

definition suppressAllActions_set :: "bool \<Rightarrow> matcher \<Rightarrow> matcher" where
  "suppressAllActions_set v s = s\<lparr>suppressAllActions := v\<rparr>"

definition setInputActionGroupsMaskCallback :: "mask \<Rightarrow> matcher \<Rightarrow> matcher" where
  "setInputActionGroupsMaskCallback m s = s\<lparr>actionGroupMask := m\<rparr>"

text \<open>
  \<open>suppressConflictingKeyActions\<close>: the set is cleared, then every single-action shortcut
  that conflicts with one of the sequences is inserted.
\<close>

definition suppressConflictingKeyActions :: "key_sequence list \<Rightarrow> matcher \<Rightarrow> matcher" where
  "suppressConflictingKeyActions shortcuts s =
     s\<lparr>suppressedSingleActionShortcuts :=
         sa_addr ` set (filter (\<lambda>sh. list_ex (sa_conflictsWith sh) shortcuts)
                          (singleActionShortcuts s))\<rparr>"

text \<open>
  \<open>clearShortcuts\<close>: \<open>reset\<close>, then the single-action, stroke and touch shortcuts are
  deleted and their lists, the candidates and the running and ready stroke pointers
  cleared, statement by statement as in the source.
\<close>

definition clearShortcuts :: "matcher \<Rightarrow> matcher" where
  "clearShortcuts s =
     (let s1 = reset s;
          s2 = s1\<lparr>deleted := deleted s1 \<union> sa_addr ` set (singleActionShortcuts s1)\<rparr>;
          s3 = s2\<lparr>singleActionShortcuts := []\<rparr>;
          s4 = s3\<lparr>deleted := deleted s3 \<union> ss_addr ` set (strokeShortcuts s3)\<rparr>;
          s5 = s4\<lparr>deleted := deleted s4 \<union> ts_addr ` set (touchShortcuts s4)\<rparr>;
          s6 = s5\<lparr>strokeShortcuts := []\<rparr>;
          s7 = s6\<lparr>candidateShortcuts := []\<rparr>;
          s8 = s7\<lparr>touchShortcuts := []\<rparr>;
          s9 = s8\<lparr>runningShortcut := None\<rparr>
      in s9\<lparr>readyShortcut := None\<rparr>)"

subsection \<open>Selecting the best candidate\<close>

text \<open>
  Every selection loop of the file has the same shape:
  \<^verbatim>\<open>Q_FOREACH (s, list) if (cond(s) && (!goodCandidate || s->priority() > goodCandidate->priority())) goodCandidate = s;\<close>
  \<open>goodCandidate\<close> is the accumulator.
\<close>

fun selectCandidate :: "('a \<Rightarrow> bool) \<Rightarrow> ('a \<Rightarrow> int) \<Rightarrow> 'a list \<Rightarrow> 'a option \<Rightarrow> 'a option" where
  "selectCandidate cond prio [] goodCandidate = goodCandidate"
| "selectCandidate cond prio (x # xs) goodCandidate =
     selectCandidate cond prio xs
       (if cond x \<and> (case goodCandidate of None \<Rightarrow> True | Some g \<Rightarrow> prio x > prio g)
        then Some x else goodCandidate)"

subsection \<open>Forced deactivation\<close>

definition forceDeactivateAllActions :: "matcher \<Rightarrow> matcher" where
  "forceDeactivateAllActions s =
     (case readyShortcut s of
        None \<Rightarrow> s
      | Some r \<Rightarrow> (invoke (ss_action r) (Deactivate (ss_shortcutIndex r)) s)\<lparr>readyShortcut := None\<rparr>)"

subsection \<open>The single-action dispatcher\<close>

definition singleActionCond :: "matcher \<Rightarrow> key set \<Rightarrow> trigger \<Rightarrow> single_action_shortcut \<Rightarrow> bool" where
  "singleActionCond s keysState param sh =
     (sa_addr sh \<notin> suppressedSingleActionShortcuts s \<and>
      sa_isAvailable sh (actionGroupMask s) \<and>
      sa_match sh keysState param)"

definition tryRunSingleActionShortcutImpl ::
  "(matcher \<Rightarrow> matcher) \<Rightarrow> trigger \<Rightarrow> qevent option \<Rightarrow> key set \<Rightarrow> matcher \<Rightarrow> bool \<times> matcher" where
  "tryRunSingleActionShortcutImpl reent param event keysState s =
     (if actionsSuppressedIgnoreFocus s then (False, s)
      else
        (case selectCandidate (singleActionCond s keysState param) sa_priority
                (singleActionShortcuts s) None of
           None \<Rightarrow> (False, s)
         | Some goodCandidate \<Rightarrow>
             (True,
              invoke (sa_action goodCandidate) (End None)
                (invoke_begin reent (sa_action goodCandidate)
                   (sa_shortcutIndex goodCandidate) event s))))"

definition tryRunWheelShortcut ::
  "(matcher \<Rightarrow> matcher) \<Rightarrow> wheel_action \<Rightarrow> qevent option \<Rightarrow> matcher \<Rightarrow> bool \<times> matcher" where
  "tryRunWheelShortcut reent wheelAction event s =
     tryRunSingleActionShortcutImpl reent (WheelTrigger wheelAction) event (keys s) s"

subsection \<open>The stroke engine\<close>

text \<open>The loop of \<open>prepareReadyShortcuts\<close> appends every matching stroke shortcut.\<close>

fun collectReady ::
  "key set \<Rightarrow> button set \<Rightarrow> stroke_shortcut list \<Rightarrow> stroke_shortcut list \<Rightarrow> stroke_shortcut list" where
  "collectReady ks bs [] candidates = candidates"
| "collectReady ks bs (sh # rest) candidates =
     collectReady ks bs rest
       (if ss_matchReady sh ks bs then candidates @ [sh] else candidates)"

definition prepareReadyShortcuts :: "matcher \<Rightarrow> matcher" where
  "prepareReadyShortcuts s =
     (let s1 = s\<lparr>candidateShortcuts := []\<rparr>
      in if actionsSuppressed s1 then s1
         else s1\<lparr>candidateShortcuts :=
                   collectReady (keys s1) (buttons s1) (strokeShortcuts s1) (candidateShortcuts s1)\<rparr>)"

definition tryRunReadyShortcut ::
  "(matcher \<Rightarrow> matcher) \<Rightarrow> button \<Rightarrow> qevent option \<Rightarrow> matcher \<Rightarrow> bool \<times> matcher" where
  "tryRunReadyShortcut reent button event s =
     (case selectCandidate
             (\<lambda>sh. ss_isAvailable sh (actionGroupMask s) \<and> ss_matchBegin sh button)
             ss_priority (candidateShortcuts s) None of
        None \<Rightarrow> (runningShortcut s \<noteq> None, s)
      | Some goodCandidate \<Rightarrow>
          (let s1 =
                 (case readyShortcut s of
                    Some r \<Rightarrow>
                      (if ss_addr r \<noteq> ss_addr goodCandidate
                       then invoke (ss_action goodCandidate) (Activate (ss_shortcutIndex goodCandidate))
                              (invoke (ss_action r) (Deactivate (ss_shortcutIndex r)) s)
                       else s)\<lparr>readyShortcut := None\<rparr>
                  | None \<Rightarrow>
                      invoke (ss_action goodCandidate) (Activate (ss_shortcutIndex goodCandidate)) s);
               s2 = s1\<lparr>runningShortcut := Some goodCandidate\<rparr>;
               s3 = RecursionGuard s2;
               s4 = invoke_begin reent (ss_action goodCandidate)
                      (ss_shortcutIndex goodCandidate) event s3;
               s5 = (if guard_brokenByRecursion s4
                     then forceDeactivateAllActions
                            ((invoke (ss_action goodCandidate) (End event) s4)
                               \<lparr>runningShortcut := None\<rparr>)
                     else s4)
           in (runningShortcut s5 \<noteq> None, s5)))"

definition tryActivateReadyShortcut :: "matcher \<Rightarrow> matcher" where
  "tryActivateReadyShortcut s =
     (case selectCandidate (\<lambda>sh. True) ss_priority (candidateShortcuts s) None of
        Some goodCandidate \<Rightarrow>
          (let s1 =
                 (case readyShortcut s of
                    Some r \<Rightarrow>
                      (if ss_addr r \<noteq> ss_addr goodCandidate
                       then (invoke (ss_action r) (Deactivate (ss_shortcutIndex r)) s)
                              \<lparr>readyShortcut := None\<rparr>
                       else s)
                  | None \<Rightarrow> s)
           in (case readyShortcut s1 of
                 None \<Rightarrow>
                   (invoke (ss_action goodCandidate) (Activate (ss_shortcutIndex goodCandidate)) s1)
                     \<lparr>readyShortcut := Some goodCandidate\<rparr>
               | Some r \<Rightarrow> s1))
      | None \<Rightarrow>
          (case readyShortcut s of
             Some r \<Rightarrow>
               (invoke (ss_action r) (Deactivate (ss_shortcutIndex r)) s)\<lparr>readyShortcut := None\<rparr>
           | None \<Rightarrow> s))"

text \<open>
  \<open>endAndDeactivate\<close> is the block guarded by \<open>if (runningShortcut->action())\<close> in
  \<open>tryEndRunningShortcut\<close> and \<open>forceEndRunningShortcut\<close>: nothing is called on a null
  action.
\<close>

definition endAndDeactivate :: "stroke_shortcut \<Rightarrow> qevent option \<Rightarrow> matcher \<Rightarrow> matcher" where
  "endAndDeactivate sh event s =
     (case ss_action sh of
        None \<Rightarrow> s
      | Some a \<Rightarrow>
          invoke (Some a) (Deactivate (ss_shortcutIndex sh)) (invoke (Some a) (End event) s))"

text \<open>
  \<open>KIS_SAFE_ASSERT_RECOVER_RETURN_VALUE(runningShortcut, true)\<close> returns \<open>true\<close> when no
  shortcut runs; \<open>KIS_SAFE_ASSERT_RECOVER(!readyShortcut)\<close> runs its recovery block when a
  ready shortcut exists.
\<close>

definition tryEndRunningShortcut :: "button \<Rightarrow> qevent option \<Rightarrow> matcher \<Rightarrow> bool \<times> matcher" where
  "tryEndRunningShortcut button event s =
     (case runningShortcut s of
        None \<Rightarrow> (True, s)
      | Some r0 \<Rightarrow>
          (let s1 = (if readyShortcut s \<noteq> None then forceDeactivateAllActions s else s);
               s2 = (case runningShortcut s1 of
                       Some r \<Rightarrow>
                         (if ss_matchBegin r button
                          then endAndDeactivate r event (s1\<lparr>runningShortcut := None\<rparr>)
                          else s1)
                     | None \<Rightarrow> s1)
           in (runningShortcut s2 = None, s2)))"

definition forceEndRunningShortcut :: "point \<Rightarrow> matcher \<Rightarrow> matcher" where
  "forceEndRunningShortcut localPos s =
     (case runningShortcut s of
        None \<Rightarrow> s
      | Some r0 \<Rightarrow>
          (let s1 = (if readyShortcut s \<noteq> None then forceDeactivateAllActions s else s)
           in (case runningShortcut s1 of
                 Some r \<Rightarrow>
                   endAndDeactivate r (Some (ss_fakeEndEvent r localPos))
                     (s1\<lparr>runningShortcut := None\<rparr>)
               | None \<Rightarrow> s1)))"

text \<open>
  The tail shared by most entry points:
  \<^verbatim>\<open>if (notifier.isInRecursion()) forceDeactivateAllActions(); else if (!runningShortcut) { prepareReadyShortcuts(); tryActivateReadyShortcut(); }\<close>
\<close>

definition recomputeReady :: "matcher \<Rightarrow> matcher" where
  "recomputeReady s =
     (if isInRecursion s then forceDeactivateAllActions s
      else if runningShortcut s = None then tryActivateReadyShortcut (prepareReadyShortcuts s)
      else s)"

subsection \<open>The touch engine\<close>

text \<open>
  Modelled from the spec: \<open>KoPointerEvent::copyQtPointerEvent(event, dst)\<close> is defined
  outside the translated file; the spec calls it a snapshot of the event, so \<open>dst\<close>
  afterwards holds a copy of the event.
\<close>

definition copyQtPointerEvent :: "touch_event \<Rightarrow> touch_event option" where
  "copyQtPointerEvent event = Some event"

text \<open>
  \<open>qreal\<close> is \<open>double\<close>: IEEE 754 binary64. A value is a finite number (given by the real
  it denotes; the two zeros are not told apart, as no operation used here does), an
  infinity or a NaN.
\<close>

datatype qreal = Finite real | PlusInf | MinusInf | NaN

text \<open>
  Rounding to nearest, ties to even. For \<open>a > 0\<close>, \<open>exponent64 a\<close> is the exponent \<open>e\<close>
  with \<open>2^e \<le> a < 2^(e+1)\<close>, not below \<open>-1022\<close> (the subnormal range); the search is
  bounded by the range of the exact results of one operation on two finite doubles. The
  result is rounded to a multiple of \<open>2^(e-52)\<close> and overflows to an infinity from
  \<open>2^1024\<close> on.
\<close>

fun expoUp :: "nat \<Rightarrow> real \<Rightarrow> int \<Rightarrow> int" where
  "expoUp 0 a e = e"
| "expoUp (Suc n) a e = (if a < 2 then e else expoUp n (a / 2) (e + 1))"

fun expoDown :: "nat \<Rightarrow> real \<Rightarrow> int \<Rightarrow> int" where
  "expoDown 0 a e = e"
| "expoDown (Suc n) a e = (if 1 \<le> a then e else expoDown n (a * 2) (e - 1))"

definition exponent64 :: "real \<Rightarrow> int" where
  "exponent64 a = (if 1 \<le> a then expoUp 2100 a 0 else expoDown 1022 a 0)"

definition pow2 :: "int \<Rightarrow> real" where
  "pow2 e = (if 0 \<le> e then 2 ^ nat e else 1 / 2 ^ nat (- e))"

definition roundHalfEven :: "real \<Rightarrow> int" where
  "roundHalfEven r =
     (let f = \<lfloor>r\<rfloor>; d = r - of_int f
      in if d < 1 / 2 then f else if 1 / 2 < d then f + 1 else if even f then f else f + 1)"

definition round64 :: "real \<Rightarrow> qreal" where
  "round64 x =
     (if x = 0 then Finite 0
      else (let q = pow2 (exponent64 \<bar>x\<bar> - 52);
                y = of_int (roundHalfEven (x / q)) * q
            in if 2 ^ 1024 \<le> \<bar>y\<bar> then (if 0 < x then PlusInf else MinusInf) else Finite y))"

text \<open>The operations the drag test uses: each rounds its exact result once.\<close>

fun qsub :: "qreal \<Rightarrow> qreal \<Rightarrow> qreal" where
  "qsub (Finite a) (Finite b) = round64 (a - b)"
| "qsub NaN y = NaN"
| "qsub x NaN = NaN"
| "qsub PlusInf PlusInf = NaN"
| "qsub MinusInf MinusInf = NaN"
| "qsub PlusInf y = PlusInf"
| "qsub MinusInf y = MinusInf"
| "qsub x PlusInf = MinusInf"
| "qsub x MinusInf = PlusInf"

fun qadd :: "qreal \<Rightarrow> qreal \<Rightarrow> qreal" where
  "qadd (Finite a) (Finite b) = round64 (a + b)"
| "qadd NaN y = NaN"
| "qadd x NaN = NaN"
| "qadd PlusInf MinusInf = NaN"
| "qadd MinusInf PlusInf = NaN"
| "qadd PlusInf y = PlusInf"
| "qadd MinusInf y = MinusInf"
| "qadd x PlusInf = PlusInf"
| "qadd x MinusInf = MinusInf"

definition infinityOfSign :: "bool \<Rightarrow> qreal" where
  "infinityOfSign negative = (if negative then MinusInf else PlusInf)"

fun qmul :: "qreal \<Rightarrow> qreal \<Rightarrow> qreal" where
  "qmul (Finite a) (Finite b) = round64 (a * b)"
| "qmul NaN y = NaN"
| "qmul x NaN = NaN"
| "qmul (Finite a) PlusInf = (if a = 0 then NaN else infinityOfSign (a < 0))"
| "qmul (Finite a) MinusInf = (if a = 0 then NaN else infinityOfSign (0 < a))"
| "qmul PlusInf (Finite b) = (if b = 0 then NaN else infinityOfSign (b < 0))"
| "qmul MinusInf (Finite b) = (if b = 0 then NaN else infinityOfSign (0 < b))"
| "qmul PlusInf PlusInf = PlusInf"
| "qmul MinusInf MinusInf = PlusInf"
| "qmul PlusInf MinusInf = MinusInf"
| "qmul MinusInf PlusInf = MinusInf"

text \<open>\<open>x > y\<close> on doubles: false as soon as one side is a NaN.\<close>

fun qgt :: "qreal \<Rightarrow> qreal \<Rightarrow> bool" where
  "qgt (Finite a) (Finite b) = (b < a)"
| "qgt NaN y = False"
| "qgt x NaN = False"
| "qgt PlusInf PlusInf = False"
| "qgt PlusInf y = True"
| "qgt MinusInf y = False"
| "qgt x PlusInf = False"
| "qgt x MinusInf = True"

text \<open>\<open>const int touchSlopSquared = 16 * 16\<close>; the comparison converts it to \<open>double\<close>, exactly.\<close>

definition touchSlopSquared :: int where
  "touchSlopSquared = 16 * 16"

text \<open>
  \<open>delta = touchPoint.pos() - touchPoint.startPos()\<close> subtracts the coordinates, and
  \<open>deltaSquared = delta.x() * delta.x() + delta.y() * delta.y()\<close>, all in \<open>qreal\<close>. The
  coordinates of a touch point are finite doubles.
\<close>

definition deltaSquared :: "touch_point \<Rightarrow> qreal" where
  "deltaSquared touchPoint =
     (let delta = (qsub (Finite (fst (pos touchPoint))) (Finite (fst (startPos touchPoint))),
                   qsub (Finite (snd (pos touchPoint))) (Finite (snd (startPos touchPoint))))
      in qadd (qmul (fst delta) (fst delta)) (qmul (snd delta) (snd delta)))"

text \<open>
  The drag-detection loop of \<open>touchUpdateEvent\<close>:
  \<^verbatim>\<open>for (i = 0; i < size && !isTouchDragDetected; ++i) isTouchDragDetected = deltaSquared > touchSlopSquared;\<close>
\<close>

fun detectDrag :: "touch_point list \<Rightarrow> bool \<Rightarrow> bool" where
  "detectDrag [] detected = detected"
| "detectDrag (touchPoint # rest) detected =
     (if detected then detected
      else detectDrag rest (qgt (deltaSquared touchPoint) (Finite (of_int touchSlopSquared))))"

definition setMaxTouchPointEvent :: "touch_event \<Rightarrow> matcher \<Rightarrow> matcher" where
  "setMaxTouchPointEvent event s =
     (let touchPointCount = int (length (touchPoints event))
      in if touchPointCount > maxTouchPoints s
         then s\<lparr>maxTouchPoints := touchPointCount,
                 bestCandidateTouchEvent := copyQtPointerEvent event\<rparr>
         else s)"

definition matchTouchShortcut :: "touch_event option \<Rightarrow> matcher \<Rightarrow> touch_shortcut option" where
  "matchTouchShortcut event s =
     selectCandidate
       (\<lambda>sh. ts_isAvailable sh (actionGroupMask s) \<and>
             ((ts_matchDragType sh event \<and> isTouchDragDetected s) \<or>
              (ts_matchTapType sh event \<and> \<not> isTouchDragDetected s)))
       ts_priority (touchShortcuts s) None"

definition fireReadyTouchShortcut ::
  "(matcher \<Rightarrow> matcher) \<Rightarrow> touch_event option \<Rightarrow> matcher \<Rightarrow> matcher" where
  "fireReadyTouchShortcut reent event s =
     (case matchTouchShortcut event s of
        None \<Rightarrow> s
      | Some goodCandidate \<Rightarrow>
          invoke (ts_action goodCandidate) (Deactivate (ts_shortcutIndex goodCandidate))
            (invoke (ts_action goodCandidate) (End (map_option QTouch event))
               (invoke_begin reent (ts_action goodCandidate) (ts_shortcutIndex goodCandidate)
                  (map_option QTouch event)
                  (invoke (ts_action goodCandidate)
                     (Activate (ts_shortcutIndex goodCandidate)) s))))"

definition tryEndTouchShortcut :: "touch_event \<Rightarrow> matcher \<Rightarrow> bool \<times> matcher" where
  "tryEndTouchShortcut event s =
     (case touchShortcut s of
        Some sh \<Rightarrow>
          (True,
           (invoke (ts_action sh) (Deactivate (ts_shortcutIndex sh))
              (invoke (ts_action sh) (End (Some (QTouch event))) s))\<lparr>touchShortcut := None\<rparr>)
      | None \<Rightarrow> (False, s))"

definition tryRunTouchShortcut ::
  "(matcher \<Rightarrow> matcher) \<Rightarrow> touch_event \<Rightarrow> matcher \<Rightarrow> bool \<times> matcher" where
  "tryRunTouchShortcut reent event s =
     (let goodCandidate = matchTouchShortcut (Some event) s
      in if actionsSuppressed s then (False, s)
         else
           (case goodCandidate of
              None \<Rightarrow> (touchShortcut s \<noteq> None, s)
            | Some g \<Rightarrow>
                (let s1 = (if runningShortcut s \<noteq> None
                           then snd (tryEndRunningShortcut LeftButton
                                  (Some (QTouch (QTouchEvent TouchEnd (te_device event)
                                     {TouchPointReleased} (touchPoints event)))) s)
                           else s);
                     s2 = (case readyShortcut s1 of
                             Some r \<Rightarrow>
                               (invoke (ss_action r) (Deactivate (ss_shortcutIndex r)) s1)
                                 \<lparr>readyShortcut := None\<rparr>
                           | None \<Rightarrow> s1);
                     s3 = s2\<lparr>touchShortcut := Some g, usingTouch := True\<rparr>;
                     s4 = RecursionGuard s3;
                     s5 = invoke (ts_action g) (Activate (ts_shortcutIndex g)) s4;
                     s6 = invoke_begin reent (ts_action g) (ts_shortcutIndex g)
                            (Some (QTouch event)) s5;
                     s7 = (if guard_brokenByRecursion s6
                           then forceDeactivateAllActions
                                  ((invoke (ts_action g) (End (Some (QTouch event))) s6)
                                     \<lparr>touchShortcut := None\<rparr>)
                           else s6)
                 in (touchShortcut s7 \<noteq> None, s7))))"

definition touchBeginEvent :: "touch_event \<Rightarrow> matcher \<Rightarrow> bool \<times> matcher" where
  "touchBeginEvent event s =
     (let s0 = RecursionNotifier s;
          s1 = s0\<lparr>lastTouchPoints := touchPoints event\<rparr>;
          s2 = s1\<lparr>maxTouchPoints := int (length (touchPoints event))\<rparr>;
          s3 = s2\<lparr>matchingIteration := 1\<rparr>;
          s4 = s3\<lparr>isTouchDragDetected := False\<rparr>;
          s5 = s4\<lparr>bestCandidateTouchEvent := copyQtPointerEvent event\<rparr>
      in (\<not> isInRecursion s5, RecursionNotifier_exit s5))"

definition numIterations :: int where
  "numIterations = 10"

definition touchUpdateEvent ::
  "(matcher \<Rightarrow> matcher) \<Rightarrow> touch_event \<Rightarrow> matcher \<Rightarrow> bool \<times> matcher" where
  "touchUpdateEvent reent event s =
     (let touchPointCount = int (length (touchPoints event));
          s1 = s\<lparr>isTouchDragDetected := detectDrag (touchPoints event) (isTouchDragDetected s)\<rparr>
      in if matchingIteration s1 \<le> numIterations \<and> \<not> isTouchDragDetected s1
         then
           (let s2 = s1\<lparr>matchingIteration := matchingIteration s1 + 1\<rparr>;
                s3 = setMaxTouchPointEvent event s2
            in (matchTouchShortcut (bestCandidateTouchEvent s3) s3 \<noteq> None, s3))
         else if isTouchDragDetected s1
         then
           (let (retval1, s2) =
                  (case touchShortcut s1 of
                     Some sh \<Rightarrow>
                       (if \<not> ts_matchDragType sh (Some event)
                        then tryEndTouchShortcut event s1 else (False, s1))
                   | None \<Rightarrow> (False, s1))
            in (case touchShortcut s2 of
                  None \<Rightarrow>
                    (if touchPointCount \<ge> maxTouchPoints s2
                     then tryRunTouchShortcut reent event (s2\<lparr>maxTouchPoints := touchPointCount\<rparr>)
                     else (retval1, s2))
                | Some sh \<Rightarrow>
                    (True,
                     if TouchPointPressed \<in> touchPointStates event
                     then invoke_begin reent (ts_action sh) (ts_shortcutIndex sh)
                            (Some (QTouch event)) s2
                     else if TouchPointReleased \<in> touchPointStates event
                     then invoke (ts_action sh) (End (Some (QTouch event))) s2
                     else invoke (ts_action sh) (InputEvent (Some (QTouch event))) s2)))
         else
           (if TouchPointReleased \<in> touchPointStates event
            then (if maxTouchPoints s1 \<le> touchPointCount
                  then (False,
                        (fireReadyTouchShortcut reent (Some event)
                           (s1\<lparr>maxTouchPoints := touchPointCount\<rparr>))
                          \<lparr>bestCandidateTouchEvent := None\<rparr>)
                  else (False, s1))
            else (False, s1)))"

definition touchEndEvent ::
  "(matcher \<Rightarrow> matcher) \<Rightarrow> touch_event \<Rightarrow> matcher \<Rightarrow> bool \<times> matcher" where
  "touchEndEvent reent event s =
     (let s1 = s\<lparr>usingTouch := False\<rparr>;
          s2 = s1\<lparr>maxTouchPoints := 0\<rparr>;
          s3 = (if \<not> isTouchDragDetected s2 \<and> bestCandidateTouchEvent s2 \<noteq> None
                then fireReadyTouchShortcut reent (bestCandidateTouchEvent s2) s2
                else s2)
      in tryEndTouchShortcut event s3)"

definition touchCancelEvent :: "touch_event \<Rightarrow> point \<Rightarrow> matcher \<Rightarrow> matcher" where
  "touchCancelEvent event localPos s =
     (let s1 = s\<lparr>usingTouch := False\<rparr>;
          s2 = s1\<lparr>maxTouchPoints := 0\<rparr>;
          s3 = (if runningShortcut s2 \<noteq> None then forceEndRunningShortcut localPos s2 else s2)
      in (case touchShortcut s3 of
            Some sh \<Rightarrow>
              (let s4 = s3\<lparr>touchShortcut := None\<rparr>;
                   dstEvent = QTouchEvent (te_type event) (te_device event)
                                (touchPointStates event) (lastTouchPoints s4)
               in invoke (ts_action sh) (Deactivate (ts_shortcutIndex sh))
                    (invoke (ts_action sh) (End (Some (QTouch dstEvent))) s4))
          | None \<Rightarrow> s3))"

definition touchResetStateForPointerEvents :: "matcher \<Rightarrow> matcher" where
  "touchResetStateForPointerEvents s =
     tryActivateReadyShortcut (prepareReadyShortcuts (s\<lparr>readyShortcut := None\<rparr>))"

subsection \<open>The native-gesture engine\<close>

definition tryRunNativeGestureShortcut ::
  "(matcher \<Rightarrow> matcher) \<Rightarrow> nat \<Rightarrow> matcher \<Rightarrow> bool \<times> matcher" where
  "tryRunNativeGestureShortcut reent event s =
     (if actionsSuppressed s then (False, s)
      else
        (case selectCandidate (\<lambda>sh. ng_match sh event) ng_priority
                (nativeGestureShortcuts s) None of
           None \<Rightarrow> (nativeGestureShortcut s \<noteq> None, s)
         | Some g \<Rightarrow>
             (let s1 = s\<lparr>nativeGestureShortcut := Some g, usingNativeGesture := True\<rparr>;
                  s2 = RecursionGuard s1;
                  s3 = invoke (ng_action g) (Activate (ng_shortcutIndex g)) s2;
                  s4 = invoke_begin reent (ng_action g) (ng_shortcutIndex g)
                         (Some (QNativeGestureEvent event)) s3;
                  s5 = (if guard_brokenByRecursion s4
                        then forceDeactivateAllActions
                               ((invoke (ng_action g) (End (Some (QNativeGestureEvent event))) s4)
                                  \<lparr>nativeGestureShortcut := None\<rparr>)
                        else s4)
              in (nativeGestureShortcut s5 \<noteq> None, s5))))"

definition tryEndNativeGestureShortcut :: "nat \<Rightarrow> matcher \<Rightarrow> bool \<times> matcher" where
  "tryEndNativeGestureShortcut event s =
     (case nativeGestureShortcut s of
        Some sh \<Rightarrow>
          (True,
           (invoke (ng_action sh) (Deactivate (ng_shortcutIndex sh))
              (invoke (ng_action sh) (End (Some (QNativeGestureEvent event))) s))
             \<lparr>nativeGestureShortcut := None\<rparr>)
      | None \<Rightarrow> (False, s))"

definition nativeGestureBeginEvent :: "nat \<Rightarrow> matcher \<Rightarrow> bool \<times> matcher" where
  "nativeGestureBeginEvent event s =
     (let s0 = RecursionNotifier s
      in (\<not> isInRecursion s0, RecursionNotifier_exit s0))"

definition nativeGestureEvent ::
  "(matcher \<Rightarrow> matcher) \<Rightarrow> nat \<Rightarrow> matcher \<Rightarrow> bool \<times> matcher" where
  "nativeGestureEvent reent event s =
     (case nativeGestureShortcut s of
        None \<Rightarrow> tryRunNativeGestureShortcut reent event s
      | Some sh \<Rightarrow>
          (True, invoke (ng_action sh) (InputEvent (Some (QNativeGestureEvent event))) s))"

definition nativeGestureEndEvent :: "nat \<Rightarrow> matcher \<Rightarrow> bool \<times> matcher" where
  "nativeGestureEndEvent event s =
     (let s1 = (case nativeGestureShortcut s of
                  Some sh \<Rightarrow>
                    (if \<not> ng_match sh event then snd (tryEndNativeGestureShortcut event s) else s)
                | None \<Rightarrow> s)
      in (True, s1\<lparr>usingNativeGesture := False\<rparr>))"

subsection \<open>The public entry points\<close>

text \<open>
  An entry point that constructs a \<open>RecursionNotifier\<close> starts with \<open>RecursionNotifier\<close>
  and ends, on every return path, with \<open>RecursionNotifier_exit\<close> (the destructor).
\<close>

definition keyPressed :: "(matcher \<Rightarrow> matcher) \<Rightarrow> key \<Rightarrow> matcher \<Rightarrow> bool \<times> matcher" where
  "keyPressed reent key s =
     (let s0 = RecursionNotifier s;
          (retval, s1) =
             (if runningShortcut s0 = None \<and> \<not> isInRecursion s0
              then tryRunSingleActionShortcutImpl reent (KeyTrigger key) None (keys s0) s0
              else (False, s0));
          s2 = s1\<lparr>keys := insert key (keys s1)\<rparr>;
          s3 = recomputeReady s2
      in (retval, RecursionNotifier_exit s3))"

definition autoRepeatedKeyPressed ::
  "(matcher \<Rightarrow> matcher) \<Rightarrow> key \<Rightarrow> matcher \<Rightarrow> bool \<times> matcher" where
  "autoRepeatedKeyPressed reent key s =
     (let s0 = RecursionNotifier s;
          (retval, s1) =
             (if isInRecursion s0 then (False, forceDeactivateAllActions s0)
              else if runningShortcut s0 = None
              then (let filteredKeys = keys s0 - {key}
                    in tryRunSingleActionShortcutImpl reent (KeyTrigger key) None filteredKeys s0)
              else (False, s0))
      in (retval, RecursionNotifier_exit s1))"

definition keyReleased :: "key \<Rightarrow> matcher \<Rightarrow> bool \<times> matcher" where
  "keyReleased key s =
     (let s0 = RecursionNotifier s;
          s1 = (if key \<notin> keys s0 then s0 else s0\<lparr>keys := keys s0 - {key}\<rparr>);
          s2 = recomputeReady s1
      in (False, RecursionNotifier_exit s2))"

definition buttonPressed ::
  "(matcher \<Rightarrow> matcher) \<Rightarrow> button \<Rightarrow> qevent option \<Rightarrow> matcher \<Rightarrow> bool \<times> matcher" where
  "buttonPressed reent button event s =
     (let s0 = RecursionNotifier s
      in if isUsingTouch s0 then (False, RecursionNotifier_exit s0)
         else
           (let (retval, s1) =
                  (if runningShortcut s0 = None \<and> \<not> isInRecursion s0
                   then tryRunReadyShortcut reent button event (prepareReadyShortcuts s0)
                   else (False, s0));
                s2 = s1\<lparr>buttons := insert button (buttons s1)\<rparr>;
                s3 = recomputeReady s2
            in (retval, RecursionNotifier_exit s3)))"

definition buttonReleased :: "button \<Rightarrow> qevent option \<Rightarrow> matcher \<Rightarrow> bool \<times> matcher" where
  "buttonReleased button event s =
     (let s0 = RecursionNotifier s
      in if isUsingTouch s0 then (False, RecursionNotifier_exit s0)
         else
           (let (retval, s1) =
                  (if runningShortcut s0 \<noteq> None
                   then tryEndRunningShortcut button event s0
                   else (False, s0));
                s2 = (if button \<notin> buttons s1 then reset s1
                      else s1\<lparr>buttons := buttons s1 - {button}\<rparr>);
                s3 = recomputeReady s2
            in (retval, RecursionNotifier_exit s3)))"

definition wheelEvent ::
  "(matcher \<Rightarrow> matcher) \<Rightarrow> wheel_action \<Rightarrow> qevent option \<Rightarrow> matcher \<Rightarrow> bool \<times> matcher" where
  "wheelEvent reent wheelAction event s =
     (let s0 = RecursionNotifier s
      in if runningShortcut s0 \<noteq> None \<or> isUsingTouch s0 \<or> isInRecursion s0
         then (False, RecursionNotifier_exit s0)
         else (let (retval, s1) = tryRunWheelShortcut reent wheelAction event s0
               in (retval, RecursionNotifier_exit s1)))"

definition pointerMoved :: "qevent option \<Rightarrow> matcher \<Rightarrow> bool \<times> matcher" where
  "pointerMoved event s =
     (let s0 = RecursionNotifier s
      in (case runningShortcut s0 of
            None \<Rightarrow> (False, RecursionNotifier_exit s0)
          | Some r \<Rightarrow>
              (if isUsingTouch s0 \<or> isInRecursion s0 then (False, RecursionNotifier_exit s0)
               else (True, RecursionNotifier_exit (invoke (ss_action r) (InputEvent event) s0)))))"

definition enterEvent :: "matcher \<Rightarrow> matcher" where
  "enterEvent s =
     (let s0 = RecursionNotifier s;
          s1 = s0\<lparr>cursorEntered := True\<rparr>
      in RecursionNotifier_exit (recomputeReady s1))"

definition leaveEvent :: "matcher \<Rightarrow> matcher" where
  "leaveEvent s =
     (let s0 = RecursionNotifier s;
          s1 = s0\<lparr>cursorEntered := False\<rparr>
      in RecursionNotifier_exit (recomputeReady s1))"

definition reinitialize :: "matcher \<Rightarrow> matcher" where
  "reinitialize s =
     (let s0 = RecursionNotifier s;
          s1 = reset s0
      in RecursionNotifier_exit (recomputeReady s1))"

definition reinitializeButtons :: "matcher \<Rightarrow> matcher" where
  "reinitializeButtons s =
     (let s0 = RecursionNotifier s;
          s1 = s0\<lparr>buttons := {}\<rparr>
      in RecursionNotifier_exit (recomputeReady s1))"

text \<open>
  \<open>recoveryModifiersWithoutFocus\<close> iterates over a copy of the set of held keys, in the
  unspecified order of \<open>QSet\<close>; \<open>order\<close> lists the keys in that order. The second loop
  tests the set as it is at each step.
\<close>

fun releaseMissing :: "key list \<Rightarrow> key list \<Rightarrow> matcher \<Rightarrow> matcher" where
  "releaseMissing ks [] s = s"
| "releaseMissing ks (key # rest) s =
     releaseMissing ks rest (if key \<notin> set ks then snd (keyReleased key s) else s)"

fun pressMissing :: "(matcher \<Rightarrow> matcher) \<Rightarrow> key list \<Rightarrow> matcher \<Rightarrow> matcher" where
  "pressMissing reent [] s = s"
| "pressMissing reent (key # rest) s =
     pressMissing reent rest (if key \<notin> keys s then snd (keyPressed reent key s) else s)"

definition recoveryModifiersWithoutFocus ::
  "(matcher \<Rightarrow> matcher) \<Rightarrow> key list \<Rightarrow> key list \<Rightarrow> matcher \<Rightarrow> matcher" where
  "recoveryModifiersWithoutFocus reent order ks s =
     (let s1 = releaseMissing ks (filter (\<lambda>k. k \<in> keys s) (remdups order)) s;
          s2 = pressMissing reent ks s1;
          s3 = RecursionNotifier s2
      in RecursionNotifier_exit (recomputeReady s3))"

definition lostFocusEvent :: "point \<Rightarrow> matcher \<Rightarrow> matcher" where
  "lostFocusEvent localPos s =
     (let s0 = RecursionNotifier s;
          s1 = (if runningShortcut s0 \<noteq> None then forceEndRunningShortcut localPos s0 else s0)
      in RecursionNotifier_exit (forceDeactivateAllActions s1))"

definition toolHasBeenActivated :: "matcher \<Rightarrow> matcher" where
  "toolHasBeenActivated s =
     (let s0 = RecursionNotifier s
      in RecursionNotifier_exit (recomputeReady s0))"

subsection \<open>Sequences of calls, with re-entry\<close>

text \<open>
  One call of a public member function with its arguments.
\<close>

datatype entry_call =
  AddSingleActionShortcut single_action_shortcut
| AddStrokeShortcut stroke_shortcut
| AddTouchShortcut touch_shortcut
| AddNativeGestureShortcut native_gesture_shortcut
| KeyPressed key
| AutoRepeatedKeyPressed key
| KeyReleased key
| ButtonPressed button "qevent option"
| ButtonReleased button "qevent option"
| WheelEvent wheel_action "qevent option"
| PointerMoved "qevent option"
| EnterEvent
| LeaveEvent
| TouchBeginEvent touch_event
| TouchUpdateEvent touch_event
| TouchEndEvent touch_event
| TouchCancelEvent touch_event point
| TouchResetStateForPointerEvents
| NativeGestureBeginEvent nat
| NativeGestureEvent nat
| NativeGestureEndEvent nat
| Reinitialize
| ReinitializeButtons
| RecoveryModifiersWithoutFocus "key list" "key list"
| LostFocusEvent point
| ToolHasBeenActivated
| SuppressAllActions bool
| SuppressConflictingKeyActions "key_sequence list"
| ClearShortcuts
| SetInputActionGroupsMaskCallback mask

definition exec :: "(matcher \<Rightarrow> matcher) \<Rightarrow> entry_call \<Rightarrow> matcher \<Rightarrow> matcher" where
  "exec reent c s =
     (case c of
        AddSingleActionShortcut sh \<Rightarrow> addShortcut_single sh s
      | AddStrokeShortcut sh \<Rightarrow> addShortcut_stroke sh s
      | AddTouchShortcut sh \<Rightarrow> addShortcut_touch sh s
      | AddNativeGestureShortcut sh \<Rightarrow> addShortcut_nativeGesture sh s
      | KeyPressed k \<Rightarrow> snd (keyPressed reent k s)
      | AutoRepeatedKeyPressed k \<Rightarrow> snd (autoRepeatedKeyPressed reent k s)
      | KeyReleased k \<Rightarrow> snd (keyReleased k s)
      | ButtonPressed b e \<Rightarrow> snd (buttonPressed reent b e s)
      | ButtonReleased b e \<Rightarrow> snd (buttonReleased b e s)
      | WheelEvent w e \<Rightarrow> snd (wheelEvent reent w e s)
      | PointerMoved e \<Rightarrow> snd (pointerMoved e s)
      | EnterEvent \<Rightarrow> enterEvent s
      | LeaveEvent \<Rightarrow> leaveEvent s
      | TouchBeginEvent e \<Rightarrow> snd (touchBeginEvent e s)
      | TouchUpdateEvent e \<Rightarrow> snd (touchUpdateEvent reent e s)
      | TouchEndEvent e \<Rightarrow> snd (touchEndEvent reent e s)
      | TouchCancelEvent e p \<Rightarrow> touchCancelEvent e p s
      | TouchResetStateForPointerEvents \<Rightarrow> touchResetStateForPointerEvents s
      | NativeGestureBeginEvent e \<Rightarrow> snd (nativeGestureBeginEvent e s)
      | NativeGestureEvent e \<Rightarrow> snd (nativeGestureEvent reent e s)
      | NativeGestureEndEvent e \<Rightarrow> snd (nativeGestureEndEvent e s)
      | Reinitialize \<Rightarrow> reinitialize s
      | ReinitializeButtons \<Rightarrow> reinitializeButtons s
      | RecoveryModifiersWithoutFocus order ks \<Rightarrow> recoveryModifiersWithoutFocus reent order ks s
      | LostFocusEvent p \<Rightarrow> lostFocusEvent p s
      | ToolHasBeenActivated \<Rightarrow> toolHasBeenActivated s
      | SuppressAllActions v \<Rightarrow> suppressAllActions_set v s
      | SuppressConflictingKeyActions seqs \<Rightarrow> suppressConflictingKeyActions seqs s
      | ClearShortcuts \<Rightarrow> clearShortcuts s
      | SetInputActionGroupsMaskCallback m \<Rightarrow> setInputActionGroupsMaskCallback m s)"

text \<open>
  An event of the environment is a call together with the calls that an action's
  \<open>begin\<close>, if the matcher invokes it during that call, makes on the matcher before it
  returns (each again with its own nested calls). An empty list is a \<open>begin\<close> that does
  not re-enter.
\<close>

datatype entry = Entry entry_call "entry list"

primrec run :: "entry \<Rightarrow> matcher \<Rightarrow> matcher" where
  "run (Entry c nested) = exec (fold (\<lambda>f. f) (map run nested)) c"

definition runAll :: "entry list \<Rightarrow> matcher \<Rightarrow> matcher" where
  "runAll es s = fold run es s"

subsection \<open>Sample shortcuts\<close>

text \<open>
  Concrete shortcut objects for the scenarios below. Their methods behave as the spec
  describes the shortcut kinds: \<open>strokeLeft\<close> is the stroke shortcut with no keys and the
  left button (ready while no key and no button is held, begun by the left button);
  \<open>strokeRight\<close> the same for button 2 with a lower priority; \<open>singleA\<close> fires on key
  65 with no other key held; \<open>touchDrag\<close> is a one-finger drag; \<open>gestureN\<close> matches
  every native gesture event.
\<close>

definition strokeLeft :: stroke_shortcut where
  "strokeLeft =
     \<lparr> ss_addr = 100, ss_action = Some 7, ss_shortcutIndex = 0, ss_priority = 10,
       ss_isAvailable = (\<lambda>m. True),
       ss_matchReady = (\<lambda>ks bs. ks = {} \<and> bs \<subseteq> {LeftButton} \<and> bs \<noteq> {LeftButton}),
       ss_matchBegin = (\<lambda>b. b = LeftButton),
       ss_fakeEndEvent = QFakeEndEvent 100 \<rparr>"

definition strokeRight :: stroke_shortcut where
  "strokeRight =
     \<lparr> ss_addr = 101, ss_action = Some 8, ss_shortcutIndex = 1, ss_priority = 5,
       ss_isAvailable = (\<lambda>m. True),
       ss_matchReady = (\<lambda>ks bs. ks = {} \<and> bs \<subseteq> {2} \<and> bs \<noteq> {2}),
       ss_matchBegin = (\<lambda>b. b = 2),
       ss_fakeEndEvent = QFakeEndEvent 101 \<rparr>"

definition singleA :: single_action_shortcut where
  "singleA =
     \<lparr> sa_addr = 200, sa_action = Some 9, sa_shortcutIndex = 3, sa_priority = 1,
       sa_isAvailable = (\<lambda>m. True),
       sa_match = (\<lambda>ks t. ks = {} \<and> t = KeyTrigger 65),
       sa_conflictsWith = (\<lambda>seq. False) \<rparr>"

definition singleB :: single_action_shortcut where
  "singleB =
     \<lparr> sa_addr = 201, sa_action = Some 11, sa_shortcutIndex = 4, sa_priority = 1,
       sa_isAvailable = (\<lambda>m. True),
       sa_match = (\<lambda>ks t. ks = {} \<and> t = KeyTrigger 65),
       sa_conflictsWith = (\<lambda>seq. False) \<rparr>"

definition touchDrag :: touch_shortcut where
  "touchDrag =
     \<lparr> ts_addr = 300, ts_action = Some 12, ts_shortcutIndex = 0, ts_priority = 1,
       ts_isAvailable = (\<lambda>m. True),
       ts_matchDragType = (\<lambda>e. case e of None \<Rightarrow> False | Some ev \<Rightarrow> length (touchPoints ev) = 1),
       ts_matchTapType = (\<lambda>e. False) \<rparr>"

definition gestureN :: native_gesture_shortcut where
  "gestureN =
     \<lparr> ng_addr = 400, ng_action = Some 13, ng_shortcutIndex = 0, ng_priority = 1,
       ng_match = (\<lambda>e. True) \<rparr>"

text \<open>The matcher as constructed on a desktop build, with \<open>AllActionGroup = 3\<close>.\<close>

definition matcher0 :: matcher where
  "matcher0 = Private_init False 3"

text \<open>How often an action has been activated and deactivated in a log.\<close>

definition activations :: "action \<Rightarrow> call list \<Rightarrow> nat" where
  "activations a cs = length (filter (\<lambda>c. fst c = Some a \<and> (case snd c of Activate i \<Rightarrow> True | _ \<Rightarrow> False)) cs)"

definition deactivations :: "action \<Rightarrow> call list \<Rightarrow> nat" where
  "deactivations a cs = length (filter (\<lambda>c. fst c = Some a \<and> (case snd c of Deactivate i \<Rightarrow> True | _ \<Rightarrow> False)) cs)"

text \<open>Quiescence: no stroke, touch or native-gesture shortcut is running or ready.\<close>

definition quiescent :: "matcher \<Rightarrow> bool" where
  "quiescent s =
     (runningShortcut s = None \<and> readyShortcut s = None \<and>
      touchShortcut s = None \<and> nativeGestureShortcut s = None)"

subsection \<open>Sample states\<close>

text \<open>Two single-action shortcuts of equal priority on the same key, \<open>singleA\<close> registered first.\<close>

definition twoSingles :: matcher where
  "twoSingles =
     runAll [Entry (AddSingleActionShortcut singleA) [],
             Entry (AddSingleActionShortcut singleB) []] matcher0"

text \<open>A registered stroke shortcut before the cursor has entered the canvas.\<close>

definition strokeRegistered :: matcher where
  "strokeRegistered = runAll [Entry (AddStrokeShortcut strokeLeft) []] matcher0"

text \<open>A native gesture in progress.\<close>

definition gestureRunning :: matcher where
  "gestureRunning =
     runAll [Entry (AddNativeGestureShortcut gestureN) [], Entry EnterEvent [],
             Entry (NativeGestureEvent 5) []] matcher0"

text \<open>
  A stroke on button 2 running, then a one-finger touch drag started on top of it:
  \<open>tryRunTouchShortcut\<close> tries to end the stroke with the left button, which
  \<open>strokeRight\<close> does not accept.
\<close>

definition strokeRunning :: matcher where
  "strokeRunning =
     runAll [Entry (AddStrokeShortcut strokeRight) [], Entry (AddTouchShortcut touchDrag) [],
             Entry EnterEvent [], Entry (ButtonPressed 2 (Some (QPointerEvent 1))) []] matcher0"

definition dragEvent :: touch_event where
  "dragEvent = QTouchEvent TouchUpdate 0 {TouchPointMoved} [TouchPoint (16, 1) (0, 0)]"

definition strokeAndTouchRunning :: matcher where
  "strokeAndTouchRunning =
     runAll [Entry (TouchBeginEvent
                (QTouchEvent TouchBegin 0 {TouchPointPressed} [TouchPoint (0, 0) (0, 0)])) [],
             Entry (TouchUpdateEvent dragEvent) []] strokeRunning"

text \<open>Key 65 pressed and still held, with \<open>singleA\<close> registered.\<close>

definition keyHeld :: matcher where
  "keyHeld =
     runAll [Entry (AddSingleActionShortcut singleA) [], Entry (KeyPressed 65) []] matcher0"

text \<open>A touch sequence just begun, and two updates of its single point.\<close>

definition touchBegun :: matcher where
  "touchBegun =
     runAll [Entry (TouchBeginEvent
                (QTouchEvent TouchBegin 0 {TouchPointPressed} [TouchPoint (0, 0) (0, 0)])) []]
       matcher0"

definition moved256 :: touch_event where
  "moved256 = QTouchEvent TouchUpdate 0 {TouchPointMoved} [TouchPoint (16, 0) (0, 0)]"

definition moved257 :: touch_event where
  "moved257 = QTouchEvent TouchUpdate 0 {TouchPointMoved} [TouchPoint (16, 1) (0, 0)]"

text \<open>A point moved by 16 and by \<open>2^-30\<close>: the exact squared displacement is \<open>256 + 2^-60\<close>.\<close>

definition movedJustOver :: touch_event where
  "movedJustOver =
     QTouchEvent TouchUpdate 0 {TouchPointMoved} [TouchPoint (16, 1 / 2 ^ 30) (0, 0)]"

text \<open>Key 65 held as in \<open>keyHeld\<close>, with all actions suppressed.\<close>

definition keyHeldSuppressed :: matcher where
  "keyHeldSuppressed = suppressAllActions_set True keyHeld"

subsection \<open>Sample runs\<close>

text \<open>A stroke shortcut is registered, the cursor enters, then the shortcuts are cleared.\<close>

definition clearWhileReady :: "entry list" where
  "clearWhileReady =
     [Entry (AddStrokeShortcut strokeLeft) [], Entry EnterEvent [], Entry ClearShortcuts []]"

text \<open>
  The left button starts the stroke, and the action's \<open>begin\<close> re-enters the matcher with
  \<open>keyPressed(27)\<close> before it returns.
\<close>

definition reentrantBegin :: "entry list" where
  "reentrantBegin =
     [Entry (AddStrokeShortcut strokeLeft) [], Entry EnterEvent [],
      Entry (ButtonPressed LeftButton (Some (QPointerEvent 1))) [Entry (KeyPressed 27) []]]"

text \<open>A native gesture event arrives while the stroke started by the left button runs.\<close>

definition gestureDuringStroke :: "entry list" where
  "gestureDuringStroke =
     [Entry (AddStrokeShortcut strokeLeft) [], Entry (AddNativeGestureShortcut gestureN) [],
      Entry EnterEvent [], Entry (ButtonPressed LeftButton (Some (QPointerEvent 1))) [],
      Entry (NativeGestureEvent 5) []]"

text \<open>A native gesture shortcut is registered, the shortcuts are cleared, then a gesture arrives.\<close>

definition gestureAfterClear :: "entry list" where
  "gestureAfterClear =
     [Entry (AddNativeGestureShortcut gestureN) [], Entry ClearShortcuts [],
      Entry EnterEvent [], Entry (NativeGestureEvent 5) []]"

subsection \<open>Auxiliary notions for the properties\<close>

text \<open>The call that \<open>forceDeactivateAllActions\<close> makes: the ready shortcut, if any, is deactivated.\<close>

definition readyDeactivation :: "matcher \<Rightarrow> call list" where
  "readyDeactivation s =
     (case readyShortcut s of
        None \<Rightarrow> []
      | Some q \<Rightarrow> [(ss_action q, Deactivate (ss_shortcutIndex q))])"

text \<open>
  The calls of the forced-end path \<open>forceEndRunningShortcut\<close> when a stroke runs: a ready
  shortcut, if any, is deactivated, then the running action (if not null) receives \<open>end\<close>
  with the fake end event and \<open>deactivate\<close>.
\<close>

definition strokeForcedEnd :: "point \<Rightarrow> matcher \<Rightarrow> call list" where
  "strokeForcedEnd localPos s =
     (case runningShortcut s of
        None \<Rightarrow> []
      | Some r \<Rightarrow>
          readyDeactivation s @
          (case ss_action r of
             None \<Rightarrow> []
           | Some a \<Rightarrow> [(Some a, End (Some (ss_fakeEndEvent r localPos))),
                        (Some a, Deactivate (ss_shortcutIndex r))]))"

text \<open>The calls with which \<open>touchCancelEvent\<close> ends a running touch shortcut.\<close>

definition touchCancelled :: "touch_event \<Rightarrow> matcher \<Rightarrow> call list" where
  "touchCancelled event s =
     (case touchShortcut s of
        None \<Rightarrow> []
      | Some t \<Rightarrow>
          [(ts_action t, End (Some (QTouch (QTouchEvent (te_type event) (te_device event)
                                       (touchPointStates event) (lastTouchPoints s))))),
           (ts_action t, Deactivate (ts_shortcutIndex t))])"

text \<open>
  The squared displacement of a touch point in exact arithmetic, as the spec words it:
  \<open>(pos - start_pos)^2\<close>.
\<close>

definition exactDeltaSquared :: "touch_point \<Rightarrow> real" where
  "exactDeltaSquared touchPoint =
     (fst (pos touchPoint) - fst (startPos touchPoint)) ^ 2 +
     (snd (pos touchPoint) - snd (startPos touchPoint)) ^ 2"

text \<open>An event that is not a \<open>touchBeginEvent\<close> and whose nested calls contain none.\<close>

definition isTouchBeginCall :: "entry_call \<Rightarrow> bool" where
  "isTouchBeginCall c = (case c of TouchBeginEvent e \<Rightarrow> True | _ \<Rightarrow> False)"

primrec noTouchBegin :: "entry \<Rightarrow> bool" where
  "noTouchBegin (Entry c nested) =
     (\<not> isTouchBeginCall c \<and> list_all (\<lambda>b. b) (map noTouchBegin nested))"

section \<open>Properties\<close>

subsection \<open>Unfolding the model\<close>

lemma run_Entry: "run (Entry c nested) s = exec (fold run nested) c s"
  by (simp add: fold_map comp_def)

lemmas engine_defs =
  invoke_def invoke_begin_def RecursionNotifier_def RecursionNotifier_exit_def isInRecursion_def
  RecursionGuard_def guard_brokenByRecursion_def actionsSuppressed_def
  actionsSuppressedIgnoreFocus_def isUsingTouch_def forceDeactivateAllActions_def
  singleActionCond_def tryRunSingleActionShortcutImpl_def tryRunWheelShortcut_def
  prepareReadyShortcuts_def tryRunReadyShortcut_def tryActivateReadyShortcut_def
  endAndDeactivate_def tryEndRunningShortcut_def forceEndRunningShortcut_def recomputeReady_def
  reset_def

lemmas entry_defs =
  addShortcut_single_def addShortcut_stroke_def addShortcut_touch_def addShortcut_nativeGesture_def
  suppressAllActions_set_def setInputActionGroupsMaskCallback_def suppressConflictingKeyActions_def
  clearShortcuts_def keyPressed_def autoRepeatedKeyPressed_def keyReleased_def buttonPressed_def
  buttonReleased_def wheelEvent_def pointerMoved_def enterEvent_def leaveEvent_def
  reinitialize_def reinitializeButtons_def recoveryModifiersWithoutFocus_def lostFocusEvent_def
  toolHasBeenActivated_def

text \<open>The computed squared displacement of the sample touch points.\<close>

lemmas double_defs =
  deltaSquared_def round64_def exponent64_def pow2_def roundHalfEven_def Let_def

lemma sample_deltaSquared:
  "deltaSquared (TouchPoint (16, 0) (0, 0)) = Finite 256"
  "deltaSquared (TouchPoint (16, 1) (0, 0)) = Finite 257"
  "deltaSquared (TouchPoint (16, 1 / 2 ^ 30) (0, 0)) = Finite 256"
  by (simp_all add: double_defs eval_nat_numeral)

text \<open>
  The doubles nearest to 9.6 and 12.8 are \<open>5404319552844595 / 2^49\<close> and
  \<open>3602879701896397 / 2^48\<close>; for a point moved by them the exact squared displacement
  is above 256 and the computed one is 256.
\<close>

lemma deltaSquared_doubles_9_6_12_8:
  "256 < exactDeltaSquared
           (TouchPoint (5404319552844595 / 2 ^ 49, 3602879701896397 / 2 ^ 48) (0, 0))"
  "deltaSquared (TouchPoint (5404319552844595 / 2 ^ 49, 3602879701896397 / 2 ^ 48) (0, 0)) =
     Finite 256"
  by (simp_all add: exactDeltaSquared_def double_defs eval_nat_numeral)

lemmas touch_defs =
  copyQtPointerEvent_def touchSlopSquared_def sample_deltaSquared setMaxTouchPointEvent_def
  matchTouchShortcut_def fireReadyTouchShortcut_def tryEndTouchShortcut_def
  tryRunTouchShortcut_def touchBeginEvent_def numIterations_def touchUpdateEvent_def
  touchEndEvent_def touchCancelEvent_def touchResetStateForPointerEvents_def
  tryRunNativeGestureShortcut_def tryEndNativeGestureShortcut_def nativeGestureBeginEvent_def
  nativeGestureEvent_def nativeGestureEndEvent_def

lemmas sample_defs =
  strokeLeft_def strokeRight_def singleA_def singleB_def touchDrag_def gestureN_def matcher0_def
  Private_init_def LeftButton_def

lemmas scenario_defs = runAll_def exec_def engine_defs entry_defs touch_defs sample_defs Let_def

text \<open>The methods of the sample shortcuts, for runs in which the objects stay folded.\<close>

lemma strokeRight_fields:
  "ss_addr strokeRight = 101" "ss_action strokeRight = Some 8"
  "ss_shortcutIndex strokeRight = 1" "ss_priority strokeRight = 5"
  "ss_isAvailable strokeRight m = True"
  "ss_matchReady strokeRight ks bs = (ks = {} \<and> bs \<subseteq> {2} \<and> bs \<noteq> {2})"
  "ss_matchBegin strokeRight b = (b = 2)"
  "ss_fakeEndEvent strokeRight pt = QFakeEndEvent 101 pt"
  by (simp_all add: strokeRight_def)

lemma touchDrag_fields:
  "ts_addr touchDrag = 300" "ts_action touchDrag = Some 12"
  "ts_shortcutIndex touchDrag = 0" "ts_priority touchDrag = 1"
  "ts_isAvailable touchDrag m = True"
  "ts_matchDragType touchDrag (Some te) = (length (touchPoints te) = 1)"
  "ts_matchDragType touchDrag None = False"
  "ts_matchTapType touchDrag e = False"
  by (simp_all add: touchDrag_def)

lemmas scenario_folded =
  runAll_def exec_def engine_defs entry_defs touch_defs strokeRight_fields touchDrag_fields
  matcher0_def Private_init_def LeftButton_def Let_def

subsection \<open>The selection loop picks the first candidate of maximal priority\<close>

lemma selectCandidate_Some:
  "\<exists>pre w post. selectCandidate cond prio xs (Some g) = Some w \<and>
      g # filter cond xs = pre @ w # post \<and>
      list_all (\<lambda>m. prio m < prio w) pre \<and> list_all (\<lambda>m. prio m \<le> prio w) post"
proof (induction xs arbitrary: g)
  case Nil
  have "selectCandidate cond prio [] (Some g) = Some g \<and> g # filter cond [] = [] @ g # [] \<and>
        list_all (\<lambda>m. prio m < prio g) [] \<and> list_all (\<lambda>m. prio m \<le> prio g) []" by simp
  then show ?case by blast
next
  case (Cons x xs)
  show ?case
  proof (cases "cond x")
    case False
    with Cons.IH [of g] show ?thesis by simp
  next
    case True
    show ?thesis
    proof (cases "prio x > prio g")
      case better: True
      from Cons.IH [of x] obtain pre w post where
        sel: "selectCandidate cond prio xs (Some x) = Some w" and
        dec: "x # filter cond xs = pre @ w # post" and
        lo: "list_all (\<lambda>m. prio m < prio w) pre" and
        hi: "list_all (\<lambda>m. prio m \<le> prio w) post" by blast
      have gw: "prio g < prio w"
      proof (cases pre)
        case Nil with dec better show ?thesis by simp
      next
        case (Cons p ps) with dec lo better show ?thesis by auto
      qed
      have "g # filter cond (x # xs) = (g # pre) @ w # post" using True dec by simp
      moreover have "list_all (\<lambda>m. prio m < prio w) (g # pre)" using gw lo by simp
      moreover have "selectCandidate cond prio (x # xs) (Some g) = Some w"
        using True better sel by simp
      ultimately show ?thesis using hi by blast
    next
      case worse: False
      from Cons.IH [of g] obtain pre w post where
        sel: "selectCandidate cond prio xs (Some g) = Some w" and
        dec: "g # filter cond xs = pre @ w # post" and
        lo: "list_all (\<lambda>m. prio m < prio w) pre" and
        hi: "list_all (\<lambda>m. prio m \<le> prio w) post" by blast
      have sel': "selectCandidate cond prio (x # xs) (Some g) = Some w"
        using True worse sel by simp
      show ?thesis
      proof (cases pre)
        case Nil
        with dec have w: "w = g" and post: "post = filter cond xs" by simp_all
        have "g # filter cond (x # xs) = [] @ w # (x # post)" using True w post by simp
        moreover have "list_all (\<lambda>m. prio m \<le> prio w) (x # post)" using hi worse w by simp
        moreover have "list_all (\<lambda>m. prio m < prio w) []" by simp
        ultimately show ?thesis using sel' by blast
      next
        case (Cons p ps)
        with dec have p: "p = g" and rest: "filter cond xs = ps @ w # post" by simp_all
        have "g # filter cond (x # xs) = (g # x # ps) @ w # post" using True rest by simp
        moreover have "list_all (\<lambda>m. prio m < prio w) (g # x # ps)"
          using lo Cons p worse by auto
        ultimately show ?thesis using sel' hi by blast
      qed
    qed
  qed
qed

lemma selectCandidate_None:
  "(filter cond xs = [] \<and> selectCandidate cond prio xs None = None) \<or>
   (\<exists>pre w post. selectCandidate cond prio xs None = Some w \<and>
      filter cond xs = pre @ w # post \<and>
      list_all (\<lambda>m. prio m < prio w) pre \<and> list_all (\<lambda>m. prio m \<le> prio w) post)"
proof (induction xs)
  case Nil
  show ?case by simp
next
  case (Cons x xs)
  show ?case
  proof (cases "cond x")
    case False
    with Cons show ?thesis by simp
  next
    case True
    from selectCandidate_Some [of cond prio xs x] obtain pre w post where
      "selectCandidate cond prio xs (Some x) = Some w"
      "x # filter cond xs = pre @ w # post"
      "list_all (\<lambda>m. prio m < prio w) pre" "list_all (\<lambda>m. prio m \<le> prio w) post" by blast
    with True show ?thesis by auto
  qed
qed

lemma collectReady_filter:
  "collectReady ks bs shs acc = acc @ filter (\<lambda>sh. ss_matchReady sh ks bs) shs"
  by (induction shs arbitrary: acc) simp_all

subsection \<open>The cases of the single-action dispatch\<close>

lemma singleAction_cases:
  assumes "\<not> actionsSuppressedIgnoreFocus s"
  shows "(filter (\<lambda>sh. sa_addr sh \<notin> suppressedSingleActionShortcuts s \<and>
                      sa_isAvailable sh (actionGroupMask s) \<and> sa_match sh keysState param)
             (singleActionShortcuts s) = [] \<and>
          tryRunSingleActionShortcutImpl reent param event keysState s = (False, s)) \<or>
         (\<exists>pre w post.
            filter (\<lambda>sh. sa_addr sh \<notin> suppressedSingleActionShortcuts s \<and>
                      sa_isAvailable sh (actionGroupMask s) \<and> sa_match sh keysState param)
              (singleActionShortcuts s) = pre @ w # post \<and>
            list_all (\<lambda>m. sa_priority m < sa_priority w) pre \<and>
            list_all (\<lambda>m. sa_priority m \<le> sa_priority w) post \<and>
            tryRunSingleActionShortcutImpl reent param event keysState s =
              (True, invoke (sa_action w) (End None)
                       (reent (invoke (sa_action w) (Begin (sa_shortcutIndex w) event) s))))"
proof -
  let ?cond = "\<lambda>sh. sa_addr sh \<notin> suppressedSingleActionShortcuts s \<and>
                      sa_isAvailable sh (actionGroupMask s) \<and> sa_match sh keysState param"
  have eq: "singleActionCond s keysState param = ?cond"
    by (rule ext) (simp add: singleActionCond_def)
  from selectCandidate_None [of ?cond "singleActionShortcuts s" sa_priority]
  show ?thesis
  proof
    assume "filter ?cond (singleActionShortcuts s) = [] \<and>
            selectCandidate ?cond sa_priority (singleActionShortcuts s) None = None"
    then show ?thesis using assms
      by (simp add: tryRunSingleActionShortcutImpl_def eq)
  next
    assume "\<exists>pre w post. selectCandidate ?cond sa_priority (singleActionShortcuts s) None = Some w \<and>
      filter ?cond (singleActionShortcuts s) = pre @ w # post \<and>
      list_all (\<lambda>m. sa_priority m < sa_priority w) pre \<and>
      list_all (\<lambda>m. sa_priority m \<le> sa_priority w) post"
    then obtain pre w post where
      sel: "selectCandidate ?cond sa_priority (singleActionShortcuts s) None = Some w" and
      rest: "filter ?cond (singleActionShortcuts s) = pre @ w # post"
        "list_all (\<lambda>m. sa_priority m < sa_priority w) pre"
        "list_all (\<lambda>m. sa_priority m \<le> sa_priority w) post" by blast
    have "tryRunSingleActionShortcutImpl reent param event keysState s =
              (True, invoke (sa_action w) (End None)
                       (reent (invoke (sa_action w) (Begin (sa_shortcutIndex w) event) s)))"
      using assms sel by (simp add: tryRunSingleActionShortcutImpl_def eq invoke_begin_def)
    with rest show ?thesis by blast
  qed
qed

subsection \<open>C5: the single-action dispatch\<close>

text \<open>
  Claim C5. When \<open>suppressAllActions\<close> is not set, \<open>tryRunSingleActionShortcutImpl\<close>
  considers exactly the registered single-action shortcuts that are not in the suppressed
  set, are available under the current mask and match the key state and the trigger, in
  registration order. If there is none, it returns \<open>false\<close> and changes nothing. Otherwise
  the winner \<open>w\<close> is the first one of maximal priority (every candidate registered before
  it has a strictly lower priority, every later one a lower or equal priority); the call
  returns \<open>true\<close>, and \<open>w\<close>'s action receives \<open>begin(shortcutIndex, event)\<close> and, once that
  has returned (\<open>reent\<close> is what a re-entering \<open>begin\<close> did meanwhile), \<open>end(0)\<close>.
\<close>

theorem tryRunSingleActionShortcutImpl_dispatch:
  assumes "\<not> actionsSuppressedIgnoreFocus s"
  shows "(filter (\<lambda>sh. sa_addr sh \<notin> suppressedSingleActionShortcuts s \<and>
                      sa_isAvailable sh (actionGroupMask s) \<and> sa_match sh keysState param)
             (singleActionShortcuts s) = [] \<and>
          tryRunSingleActionShortcutImpl reent param event keysState s = (False, s)) \<or>
         (\<exists>pre w post.
            filter (\<lambda>sh. sa_addr sh \<notin> suppressedSingleActionShortcuts s \<and>
                      sa_isAvailable sh (actionGroupMask s) \<and> sa_match sh keysState param)
              (singleActionShortcuts s) = pre @ w # post \<and>
            list_all (\<lambda>m. sa_priority m < sa_priority w) pre \<and>
            list_all (\<lambda>m. sa_priority m \<le> sa_priority w) post \<and>
            tryRunSingleActionShortcutImpl reent param event keysState s =
              (True, invoke (sa_action w) (End None)
                       (reent (invoke (sa_action w) (Begin (sa_shortcutIndex w) event) s))))"
  using assms by (rule singleAction_cases)

text \<open>
  Witness for C5: with \<open>singleA\<close> and \<open>singleB\<close> registered in this order, both matching key
  65 at the same priority, the dispatch has a winner, returns \<open>true\<close> and calls \<open>begin\<close>
  then \<open>end\<close> on the action of \<open>singleA\<close>, the one registered first.
\<close>

theorem tryRunSingleActionShortcutImpl_dispatch_witness:
  "\<not> actionsSuppressedIgnoreFocus twoSingles \<and>
   (\<exists>pre w post.
      filter (\<lambda>sh. sa_addr sh \<notin> suppressedSingleActionShortcuts twoSingles \<and>
                sa_isAvailable sh (actionGroupMask twoSingles) \<and> sa_match sh {} (KeyTrigger 65))
        (singleActionShortcuts twoSingles) = pre @ w # post \<and>
      list_all (\<lambda>m. sa_priority m < sa_priority w) pre \<and>
      list_all (\<lambda>m. sa_priority m \<le> sa_priority w) post \<and>
      tryRunSingleActionShortcutImpl (\<lambda>s. s) (KeyTrigger 65) None {} twoSingles =
        (True, invoke (sa_action w) (End None)
                 (invoke (sa_action w) (Begin (sa_shortcutIndex w) None) twoSingles))) \<and>
   calls (snd (tryRunSingleActionShortcutImpl (\<lambda>s. s) (KeyTrigger 65) None {} twoSingles)) =
     [(Some 9, Begin 3 None), (Some 9, End None)]"
proof -
  have h: "\<not> actionsSuppressedIgnoreFocus twoSingles"
    by (simp add: twoSingles_def scenario_defs)
  have ne: "filter (\<lambda>sh. sa_addr sh \<notin> suppressedSingleActionShortcuts twoSingles \<and>
                sa_isAvailable sh (actionGroupMask twoSingles) \<and> sa_match sh {} (KeyTrigger 65))
        (singleActionShortcuts twoSingles) \<noteq> []"
    by (simp add: twoSingles_def scenario_defs)
  have run: "calls (snd (tryRunSingleActionShortcutImpl (\<lambda>s. s) (KeyTrigger 65) None {} twoSingles)) =
     [(Some 9, Begin 3 None), (Some 9, End None)]"
    by (simp add: twoSingles_def scenario_defs)
  from tryRunSingleActionShortcutImpl_dispatch [OF h, of "{}" "KeyTrigger 65" "\<lambda>s. s" None] ne h run
  show ?thesis by simp
qed

subsection \<open>C6: the candidates after \<open>prepareReadyShortcuts\<close>\<close>

text \<open>
  Claim C6, as stated, fails: in a state where actions are suppressed (here: the cursor has
  not entered, on a desktop build) \<open>prepareReadyShortcuts\<close> returns right after clearing
  the list, although the registered shortcut \<open>strokeLeft\<close> (address 100) matches the held
  keys and buttons.
\<close>

theorem prepareReadyShortcuts_suppressed_counterexample:
  "actionsSuppressed strokeRegistered \<and>
   candidateShortcuts (prepareReadyShortcuts strokeRegistered) = [] \<and>
   map ss_addr (filter (\<lambda>sh. ss_matchReady sh (keys strokeRegistered) (buttons strokeRegistered))
                  (strokeShortcuts strokeRegistered)) = [100]"
  by (simp add: strokeRegistered_def scenario_defs)

text \<open>
  Claim C6, amended. After \<open>prepareReadyShortcuts\<close> the candidate list is empty when
  actions are suppressed (\<open>suppressAllActions\<close> set or the cursor not entered; never on
  Android); otherwise it holds exactly the registered stroke shortcuts whose
  \<open>matchReady(keys, buttons)\<close> holds, in registration order.
\<close>

theorem prepareReadyShortcuts_candidates:
  "candidateShortcuts (prepareReadyShortcuts s) =
     (if actionsSuppressed s then []
      else filter (\<lambda>sh. ss_matchReady sh (keys s) (buttons s)) (strokeShortcuts s))"
  by (simp add: prepareReadyShortcuts_def Let_def actionsSuppressed_def collectReady_filter)

text \<open>
  Witness for C6: once the cursor has entered, the candidates of the sample state are the
  matching shortcut \<open>strokeLeft\<close>.
\<close>

theorem prepareReadyShortcuts_candidates_witness:
  "\<not> actionsSuppressed (enterEvent strokeRegistered) \<and>
   map ss_addr (candidateShortcuts (prepareReadyShortcuts (enterEvent strokeRegistered))) = [100]"
proof -
  have h: "\<not> actionsSuppressed (enterEvent strokeRegistered)"
    by (simp add: strokeRegistered_def scenario_defs)
  have "map ss_addr (filter (\<lambda>sh. ss_matchReady sh (keys (enterEvent strokeRegistered))
                                 (buttons (enterEvent strokeRegistered)))
                       (strokeShortcuts (enterEvent strokeRegistered))) = [100]"
    by (simp add: strokeRegistered_def scenario_defs)
  with h prepareReadyShortcuts_candidates [of "enterEvent strokeRegistered"]
  show ?thesis by simp
qed

subsection \<open>C10: button events while a touch or native gesture is in progress\<close>

text \<open>
  Claim C10. While \<open>usingTouch\<close> or \<open>usingNativeGesture\<close> is set, \<open>buttonPressed\<close> and
  \<open>buttonReleased\<close> return \<open>false\<close> and leave the whole state as it was except for the
  counter \<open>brokenByRecursion\<close>, which the notifier has incremented (\<open>recursiveCounter\<close> is
  back at its value): the held buttons, the candidates and the log of action calls are
  unchanged.
\<close>

theorem button_events_ignored_while_touching:
  assumes "isUsingTouch s"
  shows "buttonPressed reent b ev s = (False, s\<lparr>brokenByRecursion := brokenByRecursion s + 1\<rparr>) \<and>
         buttonReleased b ev s = (False, s\<lparr>brokenByRecursion := brokenByRecursion s + 1\<rparr>)"
  using assms
  by (simp add: buttonPressed_def buttonReleased_def Let_def isUsingTouch_def
      RecursionNotifier_def RecursionNotifier_exit_def)

text \<open>Witness for C10: the state in which the native gesture \<open>gestureN\<close> is running.\<close>

theorem button_events_ignored_while_touching_witness:
  "isUsingTouch gestureRunning \<and>
   buttonPressed (\<lambda>s. s) LeftButton None gestureRunning =
     (False, gestureRunning\<lparr>brokenByRecursion := brokenByRecursion gestureRunning + 1\<rparr>) \<and>
   buttonReleased LeftButton None gestureRunning =
     (False, gestureRunning\<lparr>brokenByRecursion := brokenByRecursion gestureRunning + 1\<rparr>)"
proof -
  have h: "isUsingTouch gestureRunning"
    by (simp add: gestureRunning_def scenario_defs)
  from button_events_ignored_while_touching [OF h] h show ?thesis by simp
qed

subsection \<open>C3: the cancellation entry points\<close>

lemma forceDeactivate_calls:
  "calls (forceDeactivateAllActions s) = calls s @ readyDeactivation s"
  "readyShortcut (forceDeactivateAllActions s) = None"
  "runningShortcut (forceDeactivateAllActions s) = runningShortcut s"
  by (simp_all add: forceDeactivateAllActions_def readyDeactivation_def invoke_def split: option.splits)


lemma forceDeactivate_frame:
  "touchShortcut (forceDeactivateAllActions s) = touchShortcut s"
  "nativeGestureShortcut (forceDeactivateAllActions s) = nativeGestureShortcut s"
  "lastTouchPoints (forceDeactivateAllActions s) = lastTouchPoints s"
  by (simp_all add: forceDeactivateAllActions_def invoke_def split: option.splits)

lemma recomputeReady_frame:
  "runningShortcut (recomputeReady s) = runningShortcut s"
  "touchShortcut (recomputeReady s) = touchShortcut s"
  "nativeGestureShortcut (recomputeReady s) = nativeGestureShortcut s"
  by (simp_all add: recomputeReady_def forceDeactivateAllActions_def
        tryActivateReadyShortcut_def prepareReadyShortcuts_def invoke_def Let_def
      split: option.splits)

lemma recomputeReady_running_calls:
  "runningShortcut s = Some r \<Longrightarrow>
   calls (recomputeReady s) = calls s @ (if isInRecursion s then readyDeactivation s else [])"
  by (simp add: recomputeReady_def forceDeactivate_calls)

lemma forceEndRunningShortcut_running:
  assumes "runningShortcut s = Some r" "ss_action r = Some a"
  shows "runningShortcut (forceEndRunningShortcut p s) = None"
    and "readyShortcut (forceEndRunningShortcut p s) = None"
    and "calls (forceEndRunningShortcut p s) =
           calls s @ readyDeactivation s @
             [(Some a, End (Some (ss_fakeEndEvent r p))), (Some a, Deactivate (ss_shortcutIndex r))]"
  using assms
  by (simp_all add: forceEndRunningShortcut_def endAndDeactivate_def forceDeactivate_calls
        forceDeactivateAllActions_def readyDeactivation_def invoke_def Let_def
      split: option.splits)

lemma forceEndRunningShortcut_frame:
  "touchShortcut (forceEndRunningShortcut p s) = touchShortcut s"
  "nativeGestureShortcut (forceEndRunningShortcut p s) = nativeGestureShortcut s"
  "lastTouchPoints (forceEndRunningShortcut p s) = lastTouchPoints s"
  by (simp_all add: forceEndRunningShortcut_def endAndDeactivate_def forceDeactivate_frame
        invoke_def Let_def split: option.splits)

lemma lostFocusEvent_running:
  assumes "runningShortcut s = Some r" "ss_action r = Some a"
  shows "runningShortcut (lostFocusEvent p s) = None \<and>
      calls (lostFocusEvent p s) =
        calls s @ readyDeactivation s @
          [(Some a, End (Some (ss_fakeEndEvent r p))), (Some a, Deactivate (ss_shortcutIndex r))]"
proof -
  let ?s0 = "RecursionNotifier s"
  have r0: "runningShortcut ?s0 = Some r" using assms by (simp add: RecursionNotifier_def)
  have rd: "readyDeactivation ?s0 = readyDeactivation s" "calls ?s0 = calls s"
    by (simp_all add: RecursionNotifier_def readyDeactivation_def)
  note fe = forceEndRunningShortcut_running [OF r0 assms(2), of p]
  have "readyDeactivation (forceEndRunningShortcut p ?s0) = []"
    using fe(2) by (simp add: readyDeactivation_def)
  then show ?thesis using r0 fe rd
    by (simp add: lostFocusEvent_def Let_def forceDeactivate_calls RecursionNotifier_exit_def)
qed

lemma touchCancelEvent_calls:
  "calls (touchCancelEvent ev p s) = calls s @ strokeForcedEnd p s @ touchCancelled ev s"
  "runningShortcut s \<noteq> None \<Longrightarrow> runningShortcut (touchCancelEvent ev p s) = None"
  "touchShortcut (touchCancelEvent ev p s) = None"
  by (simp_all add: touchCancelEvent_def forceEndRunningShortcut_def endAndDeactivate_def
        forceDeactivateAllActions_def strokeForcedEnd_def touchCancelled_def
        readyDeactivation_def invoke_def Let_def
      split: option.splits)

lemma strokeForcedEnd_running:
  "runningShortcut s = Some r \<Longrightarrow> ss_action r = Some a \<Longrightarrow>
   strokeForcedEnd p s =
     readyDeactivation s @
       [(Some a, End (Some (ss_fakeEndEvent r p))), (Some a, Deactivate (ss_shortcutIndex r))]"
  by (simp add: strokeForcedEnd_def)

lemma touchCancelled_running:
  "touchShortcut s = Some t \<Longrightarrow>
   touchCancelled ev s =
     [(ts_action t, End (Some (QTouch (QTouchEvent (te_type ev) (te_device ev)
                                  (touchPointStates ev) (lastTouchPoints s))))),
      (ts_action t, Deactivate (ts_shortcutIndex t))]"
  by (simp add: touchCancelled_def)

lemma reinitialize_held:
  "keys (reinitialize s) = {}" "buttons (reinitialize s) = {}"
  "keys (reinitializeButtons s) = keys s" "buttons (reinitializeButtons s) = {}"
  by (simp_all add: reinitialize_def reinitializeButtons_def recomputeReady_def reset_def
        forceDeactivateAllActions_def tryActivateReadyShortcut_def prepareReadyShortcuts_def
        invoke_def RecursionNotifier_def RecursionNotifier_exit_def Let_def
      split: option.splits)

lemma reinitialize_running:
  assumes "runningShortcut s = Some r"
  shows "runningShortcut (reinitialize s) = Some r \<and>
      calls (reinitialize s) = calls s @ (if recursiveCounter s \<ge> 1 then readyDeactivation s else []) \<and>
      runningShortcut (reinitializeButtons s) = Some r \<and>
      calls (reinitializeButtons s) = calls s @ (if recursiveCounter s \<ge> 1 then readyDeactivation s else [])"
proof -
  have a: "runningShortcut (reset (RecursionNotifier s)) = Some r"
          "runningShortcut ((RecursionNotifier s)\<lparr>buttons := {}\<rparr>) = Some r"
    using assms by (simp_all add: reset_def RecursionNotifier_def)
  show ?thesis
    using assms recomputeReady_running_calls [OF a(1)] recomputeReady_running_calls [OF a(2)]
    by (simp add: reinitialize_def reinitializeButtons_def Let_def recomputeReady_frame
        RecursionNotifier_exit_def RecursionNotifier_def reset_def isInRecursion_def
        readyDeactivation_def)
qed

lemma cancellation_frame:
  "touchShortcut (lostFocusEvent p s) = touchShortcut s"
  "touchShortcut (reinitialize s) = touchShortcut s"
  "touchShortcut (reinitializeButtons s) = touchShortcut s"
  "nativeGestureShortcut (lostFocusEvent p s) = nativeGestureShortcut s"
  "nativeGestureShortcut (touchCancelEvent ev p s) = nativeGestureShortcut s"
  "nativeGestureShortcut (reinitialize s) = nativeGestureShortcut s"
  "nativeGestureShortcut (reinitializeButtons s) = nativeGestureShortcut s"
  by (simp_all add: lostFocusEvent_def touchCancelEvent_def reinitialize_def
        reinitializeButtons_def Let_def recomputeReady_frame forceDeactivate_frame
        forceEndRunningShortcut_frame RecursionNotifier_exit_def RecursionNotifier_def reset_def
        invoke_def split: option.splits)

text \<open>
  Claim C3, as stated, fails: \<open>reinitialize\<close> called while the stroke \<open>strokeRight\<close> runs
  (outside recursion) calls nothing on its action and leaves \<open>runningShortcut\<close> set; the
  same holds for \<open>reinitializeButtons\<close>.
\<close>

theorem reinitialize_keeps_running_counterexample:
  "map_option ss_addr (runningShortcut strokeRunning) = Some 101 \<and>
   map_option ss_addr (runningShortcut (reinitialize strokeRunning)) = Some 101 \<and>
   calls (reinitialize strokeRunning) = calls strokeRunning \<and>
   map_option ss_addr (runningShortcut (reinitializeButtons strokeRunning)) = Some 101 \<and>
   calls (reinitializeButtons strokeRunning) = calls strokeRunning"
  by (simp add: strokeRunning_def scenario_defs)

text \<open>
  Claim C3, amended. While a stroke shortcut \<open>r\<close> with action \<open>a\<close> runs, \<open>lostFocusEvent\<close>
  and \<open>touchCancelEvent\<close> take the forced-end path: the log grows by the deactivation of a
  ready shortcut if one exists, then \<open>a.end\<close> with the fake end event at the given point,
  then \<open>a.deactivate\<close> (and, in \<open>touchCancelEvent\<close>, by the end of a running touch
  shortcut), and \<open>runningShortcut\<close> is null on return. \<open>reinitialize\<close> and
  \<open>reinitializeButtons\<close> do not end a running stroke: \<open>runningShortcut\<close> is unchanged and
  the only call they can make is the deactivation of a ready shortcut when they are called
  in recursion. While a touch shortcut \<open>t\<close> runs, \<open>touchCancelEvent\<close>, after the forced end
  of a running stroke if there is one, calls \<open>t.end\<close> (with the last touch points) and
  \<open>t.deactivate\<close> and clears \<open>touchShortcut\<close>; the other three leave \<open>touchShortcut\<close> as
  it is. In every state \<open>reinitialize\<close> empties the held keys and the held buttons,
  \<open>reinitializeButtons\<close> empties the held buttons and keeps the held keys, and none of the
  four changes \<open>nativeGestureShortcut\<close>.
\<close>

theorem cancellation_entry_points:
  "(runningShortcut s = Some r \<and> ss_action r = Some a \<longrightarrow>
      runningShortcut (lostFocusEvent p s) = None \<and>
      calls (lostFocusEvent p s) =
        calls s @ readyDeactivation s @
          [(Some a, End (Some (ss_fakeEndEvent r p))), (Some a, Deactivate (ss_shortcutIndex r))] \<and>
      runningShortcut (touchCancelEvent ev p s) = None \<and>
      calls (touchCancelEvent ev p s) =
        calls s @ readyDeactivation s @
          [(Some a, End (Some (ss_fakeEndEvent r p))), (Some a, Deactivate (ss_shortcutIndex r))] @
          touchCancelled ev s \<and>
      runningShortcut (reinitialize s) = Some r \<and>
      calls (reinitialize s) = calls s @ (if recursiveCounter s \<ge> 1 then readyDeactivation s else []) \<and>
      runningShortcut (reinitializeButtons s) = Some r \<and>
      calls (reinitializeButtons s) = calls s @ (if recursiveCounter s \<ge> 1 then readyDeactivation s else [])) \<and>
   (touchShortcut s = Some t \<longrightarrow>
      touchShortcut (touchCancelEvent ev p s) = None \<and>
      calls (touchCancelEvent ev p s) =
        calls s @ strokeForcedEnd p s @
          [(ts_action t, End (Some (QTouch (QTouchEvent (te_type ev) (te_device ev)
                                       (touchPointStates ev) (lastTouchPoints s))))),
           (ts_action t, Deactivate (ts_shortcutIndex t))] \<and>
      touchShortcut (lostFocusEvent p s) = Some t \<and>
      touchShortcut (reinitialize s) = Some t \<and>
      touchShortcut (reinitializeButtons s) = Some t) \<and>
   keys (reinitialize s) = {} \<and> buttons (reinitialize s) = {} \<and>
   keys (reinitializeButtons s) = keys s \<and> buttons (reinitializeButtons s) = {} \<and>
   nativeGestureShortcut (lostFocusEvent p s) = nativeGestureShortcut s \<and>
   nativeGestureShortcut (touchCancelEvent ev p s) = nativeGestureShortcut s \<and>
   nativeGestureShortcut (reinitialize s) = nativeGestureShortcut s \<and>
   nativeGestureShortcut (reinitializeButtons s) = nativeGestureShortcut s"
  using lostFocusEvent_running [of s r a p] reinitialize_running [of s r]
    strokeForcedEnd_running [of s r a p] touchCancelled_running [of s t ev]
  by (simp add: cancellation_frame touchCancelEvent_calls reinitialize_held)

text \<open>
  Witness for C3: the state in which both \<open>strokeRight\<close> and the touch shortcut
  \<open>touchDrag\<close> run.
\<close>

theorem cancellation_entry_points_witness:
  "runningShortcut strokeAndTouchRunning = Some strokeRight \<and>
   ss_action strokeRight = Some 8 \<and>
   touchShortcut strokeAndTouchRunning = Some touchDrag \<and>
   runningShortcut (lostFocusEvent (100, 50) strokeAndTouchRunning) = None \<and>
   calls (lostFocusEvent (100, 50) strokeAndTouchRunning) =
     calls strokeAndTouchRunning @
       [(Some 8, End (Some (QFakeEndEvent 101 (100, 50)))), (Some 8, Deactivate 1)] \<and>
   runningShortcut (touchCancelEvent dragEvent (100, 50) strokeAndTouchRunning) = None \<and>
   touchShortcut (touchCancelEvent dragEvent (100, 50) strokeAndTouchRunning) = None \<and>
   calls (touchCancelEvent dragEvent (100, 50) strokeAndTouchRunning) =
     calls strokeAndTouchRunning @
       [(Some 8, End (Some (QFakeEndEvent 101 (100, 50)))), (Some 8, Deactivate 1),
        (Some 12, End (Some (QTouch (QTouchEvent TouchUpdate 0 {TouchPointMoved}
                                       [TouchPoint (0, 0) (0, 0)])))),
        (Some 12, Deactivate 0)] \<and>
   runningShortcut (reinitialize strokeAndTouchRunning) = Some strokeRight \<and>
   calls (reinitialize strokeAndTouchRunning) = calls strokeAndTouchRunning \<and>
   keys (reinitialize strokeAndTouchRunning) = {} \<and>
   buttons (reinitialize strokeAndTouchRunning) = {} \<and>
   buttons (reinitializeButtons strokeAndTouchRunning) = {} \<and>
   touchShortcut (lostFocusEvent (100, 50) strokeAndTouchRunning) = Some touchDrag"
proof -
  have h1: "runningShortcut strokeAndTouchRunning = Some strokeRight"
    by (simp add: strokeAndTouchRunning_def strokeRunning_def dragEvent_def scenario_folded)
  have h2: "ss_action strokeRight = Some 8"
    by (simp add: strokeRight_def)
  have h3: "touchShortcut strokeAndTouchRunning = Some touchDrag"
    by (simp add: strokeAndTouchRunning_def strokeRunning_def dragEvent_def scenario_folded)
  have h4: "readyDeactivation strokeAndTouchRunning = []"
           "recursiveCounter strokeAndTouchRunning = 0"
           "lastTouchPoints strokeAndTouchRunning = [TouchPoint (0, 0) (0, 0)]"
    by (simp_all add: readyDeactivation_def strokeAndTouchRunning_def strokeRunning_def
        dragEvent_def scenario_folded)
  have h5: "ss_fakeEndEvent strokeRight (100, 50) = QFakeEndEvent 101 (100, 50)"
           "ss_shortcutIndex strokeRight = 1"
           "ts_action touchDrag = Some 12" "ts_shortcutIndex touchDrag = 0"
    by (simp_all add: strokeRight_def touchDrag_def)
  have h6: "touchCancelled dragEvent strokeAndTouchRunning =
              [(Some 12, End (Some (QTouch (QTouchEvent TouchUpdate 0 {TouchPointMoved}
                                       [TouchPoint (0, 0) (0, 0)])))),
               (Some 12, Deactivate 0)]"
    using h3 h4 h5 by (simp add: touchCancelled_def dragEvent_def)
  from cancellation_entry_points
         [of strokeAndTouchRunning strokeRight 8 "(100, 50)" dragEvent touchDrag]
       h1 h2 h3 h4 h5 h6
  show ?thesis by simp
qed

subsection \<open>C7: autorepeat\<close>

text \<open>
  Claim C7, as stated, fails: with key 65 held, \<open>autoRepeatedKeyPressed(65)\<close> removes the
  key from the key state it matches against and so fires \<open>singleA\<close>, whose trigger is
  65, again: its action receives \<open>begin\<close> and \<open>end\<close>.
\<close>

theorem autoRepeatedKeyPressed_refires_counterexample:
  "65 \<in> keys keyHeld \<and> sa_match singleA (keys keyHeld - {65}) (KeyTrigger 65) \<and>
   fst (autoRepeatedKeyPressed (\<lambda>s. s) 65 keyHeld) \<and>
   calls (snd (autoRepeatedKeyPressed (\<lambda>s. s) 65 keyHeld)) =
     calls keyHeld @ [(Some 9, Begin 3 None), (Some 9, End None)]"
  by (simp add: keyHeld_def scenario_defs)

lemma autoRepeatedKeyPressed_cases:
  assumes "recursiveCounter s \<le> 0" and "runningShortcut s = None"
    and "\<not> suppressAllActions s"
  shows "(filter (\<lambda>sh. sa_addr sh \<notin> suppressedSingleActionShortcuts s \<and>
                      sa_isAvailable sh (actionGroupMask s) \<and>
                      sa_match sh (keys s - {k}) (KeyTrigger k))
             (singleActionShortcuts s) = [] \<and>
          autoRepeatedKeyPressed reent k s =
            (False, s\<lparr>brokenByRecursion := brokenByRecursion s + 1\<rparr>)) \<or>
         (\<exists>pre w post.
            filter (\<lambda>sh. sa_addr sh \<notin> suppressedSingleActionShortcuts s \<and>
                      sa_isAvailable sh (actionGroupMask s) \<and>
                      sa_match sh (keys s - {k}) (KeyTrigger k))
              (singleActionShortcuts s) = pre @ w # post \<and>
            list_all (\<lambda>m. sa_priority m < sa_priority w) pre \<and>
            list_all (\<lambda>m. sa_priority m \<le> sa_priority w) post \<and>
            autoRepeatedKeyPressed reent k s =
              (True, RecursionNotifier_exit
                       (invoke (sa_action w) (End None)
                          (reent (invoke (sa_action w) (Begin (sa_shortcutIndex w) None)
                                    (RecursionNotifier s))))))"
proof -
  let ?s0 = "RecursionNotifier s"
  have fields: "suppressedSingleActionShortcuts ?s0 = suppressedSingleActionShortcuts s"
    "actionGroupMask ?s0 = actionGroupMask s" "keys ?s0 = keys s"
    "singleActionShortcuts ?s0 = singleActionShortcuts s"
    by (simp_all add: RecursionNotifier_def)
  have ns: "\<not> actionsSuppressedIgnoreFocus ?s0"
    using assms(3) by (simp add: actionsSuppressedIgnoreFocus_def RecursionNotifier_def)
  have step: "autoRepeatedKeyPressed reent k s =
      (fst (tryRunSingleActionShortcutImpl reent (KeyTrigger k) None (keys s - {k}) ?s0),
       RecursionNotifier_exit
         (snd (tryRunSingleActionShortcutImpl reent (KeyTrigger k) None (keys s - {k}) ?s0)))"
    using assms(1,2)
    by (simp add: autoRepeatedKeyPressed_def Let_def case_prod_beta isInRecursion_def
        RecursionNotifier_def)
  have restored: "RecursionNotifier_exit ?s0 = s\<lparr>brokenByRecursion := brokenByRecursion s + 1\<rparr>"
    by (simp add: RecursionNotifier_def RecursionNotifier_exit_def)
  from singleAction_cases [OF ns, of "keys s - {k}" "KeyTrigger k" reent None]
  show ?thesis
    unfolding fields
  proof (elim disjE conjE exE)
    assume "filter (\<lambda>sh. sa_addr sh \<notin> suppressedSingleActionShortcuts s \<and>
                      sa_isAvailable sh (actionGroupMask s) \<and>
                      sa_match sh (keys s - {k}) (KeyTrigger k))
             (singleActionShortcuts s) = []"
      and "tryRunSingleActionShortcutImpl reent (KeyTrigger k) None (keys s - {k}) ?s0 = (False, ?s0)"
    then show ?thesis by (simp add: step restored)
  next
    fix pre w post
    assume "filter (\<lambda>sh. sa_addr sh \<notin> suppressedSingleActionShortcuts s \<and>
                      sa_isAvailable sh (actionGroupMask s) \<and>
                      sa_match sh (keys s - {k}) (KeyTrigger k))
              (singleActionShortcuts s) = pre @ w # post"
      and "list_all (\<lambda>m. sa_priority m < sa_priority w) pre"
      and "list_all (\<lambda>m. sa_priority m \<le> sa_priority w) post"
      and "tryRunSingleActionShortcutImpl reent (KeyTrigger k) None (keys s - {k}) ?s0 =
              (True, invoke (sa_action w) (End None)
                       (reent (invoke (sa_action w) (Begin (sa_shortcutIndex w) None) ?s0)))"
    then have "filter (\<lambda>sh. sa_addr sh \<notin> suppressedSingleActionShortcuts s \<and>
                      sa_isAvailable sh (actionGroupMask s) \<and>
                      sa_match sh (keys s - {k}) (KeyTrigger k))
              (singleActionShortcuts s) = pre @ w # post \<and>
            list_all (\<lambda>m. sa_priority m < sa_priority w) pre \<and>
            list_all (\<lambda>m. sa_priority m \<le> sa_priority w) post \<and>
            autoRepeatedKeyPressed reent k s =
              (True, RecursionNotifier_exit
                       (invoke (sa_action w) (End None)
                          (reent (invoke (sa_action w) (Begin (sa_shortcutIndex w) None)
                                    (RecursionNotifier s)))))"
      by (simp add: step)
    then show ?thesis by blast
  qed
qed


lemma autoRepeatedKeyPressed_refused:
  assumes "recursiveCounter s \<ge> 1 \<or> runningShortcut s \<noteq> None \<or> suppressAllActions s"
  shows "fst (autoRepeatedKeyPressed reent k s) = False \<and>
         calls (snd (autoRepeatedKeyPressed reent k s)) =
           calls s @ (if recursiveCounter s \<ge> 1 then readyDeactivation s else [])"
  using assms
  by (auto simp: autoRepeatedKeyPressed_def Let_def case_prod_beta isInRecursion_def
      forceDeactivateAllActions_def readyDeactivation_def invoke_def
      tryRunSingleActionShortcutImpl_def actionsSuppressedIgnoreFocus_def
      RecursionNotifier_def RecursionNotifier_exit_def split: option.splits)

text \<open>
  Claim C7, amended. In recursion, while a stroke runs, or with \<open>suppressAllActions\<close> set,
  \<open>autoRepeatedKeyPressed(k)\<close> returns \<open>false\<close> and invokes no \<open>begin\<close> (its only possible
  call is the deactivation of a ready shortcut, in recursion). In every other state it
  dispatches the trigger \<open>k\<close> against the held keys without \<open>k\<close>: if no non-suppressed,
  available single-action shortcut matches \<open>(keys - {k}, k)\<close> it returns \<open>false\<close> and calls
  nothing; otherwise it returns \<open>true\<close> and the first such shortcut of maximal priority
  receives \<open>begin(index, 0)\<close> and then \<open>end(0)\<close>. The key state it matches against never
  contains \<open>k\<close>.
\<close>

theorem autoRepeatedKeyPressed_dispatch:
  "(recursiveCounter s \<ge> 1 \<or> runningShortcut s \<noteq> None \<or> suppressAllActions s \<longrightarrow>
      fst (autoRepeatedKeyPressed reent k s) = False \<and>
      calls (snd (autoRepeatedKeyPressed reent k s)) =
        calls s @ (if recursiveCounter s \<ge> 1 then readyDeactivation s else [])) \<and>
   (recursiveCounter s \<le> 0 \<and> runningShortcut s = None \<and> \<not> suppressAllActions s \<longrightarrow>
      (filter (\<lambda>sh. sa_addr sh \<notin> suppressedSingleActionShortcuts s \<and>
                      sa_isAvailable sh (actionGroupMask s) \<and>
                      sa_match sh (keys s - {k}) (KeyTrigger k))
             (singleActionShortcuts s) = [] \<and>
          autoRepeatedKeyPressed reent k s =
            (False, s\<lparr>brokenByRecursion := brokenByRecursion s + 1\<rparr>)) \<or>
         (\<exists>pre w post.
            filter (\<lambda>sh. sa_addr sh \<notin> suppressedSingleActionShortcuts s \<and>
                      sa_isAvailable sh (actionGroupMask s) \<and>
                      sa_match sh (keys s - {k}) (KeyTrigger k))
              (singleActionShortcuts s) = pre @ w # post \<and>
            list_all (\<lambda>m. sa_priority m < sa_priority w) pre \<and>
            list_all (\<lambda>m. sa_priority m \<le> sa_priority w) post \<and>
            autoRepeatedKeyPressed reent k s =
              (True, RecursionNotifier_exit
                       (invoke (sa_action w) (End None)
                          (reent (invoke (sa_action w) (Begin (sa_shortcutIndex w) None)
                                    (RecursionNotifier s)))))))"
  using autoRepeatedKeyPressed_refused [of s reent k]
    autoRepeatedKeyPressed_cases [of s k reent]
  by blast

text \<open>
  Witness for C7: in the sample state (key 65 held) the autorepeat of 65 finds the
  candidate \<open>singleA\<close> and fires it; in the same state with all actions suppressed it
  returns \<open>false\<close> and calls nothing.
\<close>

theorem autoRepeatedKeyPressed_dispatch_witness:
  "recursiveCounter keyHeld \<le> 0 \<and> runningShortcut keyHeld = None \<and>
   \<not> suppressAllActions keyHeld \<and>
   (\<exists>pre w post.
      filter (\<lambda>sh. sa_addr sh \<notin> suppressedSingleActionShortcuts keyHeld \<and>
                sa_isAvailable sh (actionGroupMask keyHeld) \<and>
                sa_match sh (keys keyHeld - {65}) (KeyTrigger 65))
        (singleActionShortcuts keyHeld) = pre @ w # post \<and>
      list_all (\<lambda>m. sa_priority m < sa_priority w) pre \<and>
      list_all (\<lambda>m. sa_priority m \<le> sa_priority w) post \<and>
      autoRepeatedKeyPressed (\<lambda>s. s) 65 keyHeld =
        (True, RecursionNotifier_exit
                 (invoke (sa_action w) (End None)
                    (invoke (sa_action w) (Begin (sa_shortcutIndex w) None)
                       (RecursionNotifier keyHeld))))) \<and>
   suppressAllActions keyHeldSuppressed \<and>
   fst (autoRepeatedKeyPressed (\<lambda>s. s) 65 keyHeldSuppressed) = False \<and>
   calls (snd (autoRepeatedKeyPressed (\<lambda>s. s) 65 keyHeldSuppressed)) = calls keyHeldSuppressed"
proof -
  have h: "recursiveCounter keyHeld \<le> 0" "runningShortcut keyHeld = None"
          "\<not> suppressAllActions keyHeld"
    by (simp_all add: keyHeld_def scenario_defs)
  have ne: "filter (\<lambda>sh. sa_addr sh \<notin> suppressedSingleActionShortcuts keyHeld \<and>
                sa_isAvailable sh (actionGroupMask keyHeld) \<and>
                sa_match sh (keys keyHeld - {65}) (KeyTrigger 65))
        (singleActionShortcuts keyHeld) \<noteq> []"
    by (simp add: keyHeld_def scenario_defs)
  have g: "suppressAllActions keyHeldSuppressed" "\<not> recursiveCounter keyHeldSuppressed \<ge> 1"
    by (simp_all add: keyHeldSuppressed_def keyHeld_def scenario_defs)
  from autoRepeatedKeyPressed_dispatch [of keyHeld "\<lambda>s. s" 65] ne h
  have first: "\<exists>pre w post.
      filter (\<lambda>sh. sa_addr sh \<notin> suppressedSingleActionShortcuts keyHeld \<and>
                sa_isAvailable sh (actionGroupMask keyHeld) \<and>
                sa_match sh (keys keyHeld - {65}) (KeyTrigger 65))
        (singleActionShortcuts keyHeld) = pre @ w # post \<and>
      list_all (\<lambda>m. sa_priority m < sa_priority w) pre \<and>
      list_all (\<lambda>m. sa_priority m \<le> sa_priority w) post \<and>
      autoRepeatedKeyPressed (\<lambda>s. s) 65 keyHeld =
        (True, RecursionNotifier_exit
                 (invoke (sa_action w) (End None)
                    (invoke (sa_action w) (Begin (sa_shortcutIndex w) None)
                       (RecursionNotifier keyHeld))))"
    by simp
  from autoRepeatedKeyPressed_dispatch [of keyHeldSuppressed "\<lambda>s. s" 65] g
  have second: "fst (autoRepeatedKeyPressed (\<lambda>s. s) 65 keyHeldSuppressed) = False \<and>
     calls (snd (autoRepeatedKeyPressed (\<lambda>s. s) 65 keyHeldSuppressed)) = calls keyHeldSuppressed"
    by simp
  from h g first second show ?thesis by simp
qed

subsection \<open>C8: the touch slop and the persistence of the drag flag\<close>

named_theorems drag_keep

lemma drag_invoke [drag_keep]: "isTouchDragDetected (invoke a c s) = isTouchDragDetected s"
  by (simp add: invoke_def)

lemma drag_notifier [drag_keep]:
  "isTouchDragDetected (RecursionNotifier s) = isTouchDragDetected s"
  "isTouchDragDetected (RecursionNotifier_exit s) = isTouchDragDetected s"
  "isTouchDragDetected (RecursionGuard s) = isTouchDragDetected s"
  by (simp_all add: RecursionNotifier_def RecursionNotifier_exit_def RecursionGuard_def)

lemma drag_forceDeactivate [drag_keep]:
  "isTouchDragDetected (forceDeactivateAllActions s) = isTouchDragDetected s"
  by (simp add: forceDeactivateAllActions_def drag_keep split: option.splits)

lemma drag_prepare [drag_keep]:
  "isTouchDragDetected (prepareReadyShortcuts s) = isTouchDragDetected s"
  by (simp add: prepareReadyShortcuts_def Let_def)

lemma drag_tryActivate [drag_keep]:
  "isTouchDragDetected (tryActivateReadyShortcut s) = isTouchDragDetected s"
  by (simp add: tryActivateReadyShortcut_def Let_def drag_keep split: option.splits)

lemma drag_endAndDeactivate [drag_keep]:
  "isTouchDragDetected (endAndDeactivate r e s) = isTouchDragDetected s"
  by (simp add: endAndDeactivate_def drag_keep split: option.splits)

lemma drag_tryEndRunning [drag_keep]:
  "isTouchDragDetected (snd (tryEndRunningShortcut b e s)) = isTouchDragDetected s"
  by (simp add: tryEndRunningShortcut_def Let_def drag_keep split: option.splits)

lemma drag_forceEnd [drag_keep]:
  "isTouchDragDetected (forceEndRunningShortcut p s) = isTouchDragDetected s"
  by (simp add: forceEndRunningShortcut_def Let_def drag_keep split: option.splits)

lemma drag_recompute [drag_keep]:
  "isTouchDragDetected (recomputeReady s) = isTouchDragDetected s"
  by (simp add: recomputeReady_def drag_keep)

lemma drag_reset [drag_keep]: "isTouchDragDetected (reset s) = isTouchDragDetected s"
  by (simp add: reset_def)

lemma drag_setMax [drag_keep]:
  "isTouchDragDetected (setMaxTouchPointEvent e s) = isTouchDragDetected s"
  by (simp add: setMaxTouchPointEvent_def Let_def)

lemma drag_tryEndTouch [drag_keep]:
  "isTouchDragDetected (snd (tryEndTouchShortcut e s)) = isTouchDragDetected s"
  by (simp add: tryEndTouchShortcut_def drag_keep split: option.splits)

lemma drag_tryEndNative [drag_keep]:
  "isTouchDragDetected (snd (tryEndNativeGestureShortcut e s)) = isTouchDragDetected s"
  by (simp add: tryEndNativeGestureShortcut_def drag_keep split: option.splits)

lemma drag_keyReleased [drag_keep]:
  "isTouchDragDetected (snd (keyReleased k s)) = isTouchDragDetected s"
  by (simp add: keyReleased_def Let_def drag_keep)

lemma drag_simple_entries [drag_keep]:
  "isTouchDragDetected (snd (buttonReleased b e s)) = isTouchDragDetected s"
  "isTouchDragDetected (snd (pointerMoved e s)) = isTouchDragDetected s"
  "isTouchDragDetected (enterEvent s) = isTouchDragDetected s"
  "isTouchDragDetected (leaveEvent s) = isTouchDragDetected s"
  "isTouchDragDetected (reinitialize s) = isTouchDragDetected s"
  "isTouchDragDetected (reinitializeButtons s) = isTouchDragDetected s"
  "isTouchDragDetected (lostFocusEvent p s) = isTouchDragDetected s"
  "isTouchDragDetected (toolHasBeenActivated s) = isTouchDragDetected s"
  "isTouchDragDetected (touchCancelEvent te p s) = isTouchDragDetected s"
  "isTouchDragDetected (touchResetStateForPointerEvents s) = isTouchDragDetected s"
  "isTouchDragDetected (snd (nativeGestureBeginEvent n s)) = isTouchDragDetected s"
  "isTouchDragDetected (snd (nativeGestureEndEvent n s)) = isTouchDragDetected s"
  "isTouchDragDetected (clearShortcuts s) = isTouchDragDetected s"
  "isTouchDragDetected (suppressAllActions_set v s) = isTouchDragDetected s"
  "isTouchDragDetected (suppressConflictingKeyActions seqs s) = isTouchDragDetected s"
  "isTouchDragDetected (setInputActionGroupsMaskCallback m s) = isTouchDragDetected s"
  "isTouchDragDetected (addShortcut_single sa s) = isTouchDragDetected s"
  "isTouchDragDetected (addShortcut_stroke ss s) = isTouchDragDetected s"
  "isTouchDragDetected (addShortcut_touch ts s) = isTouchDragDetected s"
  "isTouchDragDetected (addShortcut_nativeGesture ng s) = isTouchDragDetected s"
  by (simp_all add: buttonReleased_def pointerMoved_def enterEvent_def leaveEvent_def
      reinitialize_def reinitializeButtons_def lostFocusEvent_def toolHasBeenActivated_def
      touchCancelEvent_def touchResetStateForPointerEvents_def nativeGestureBeginEvent_def
      nativeGestureEndEvent_def clearShortcuts_def suppressAllActions_set_def
      suppressConflictingKeyActions_def setInputActionGroupsMaskCallback_def
      addShortcut_single_def addShortcut_stroke_def addShortcut_touch_def
      addShortcut_nativeGesture_def Let_def case_prod_beta drag_keep split: option.splits)


lemma detectDrag_eq:
  "detectDrag ps d = (d \<or> list_ex (\<lambda>p. qgt (deltaSquared p) (Finite (of_int touchSlopSquared))) ps)"
  by (induction ps arbitrary: d) auto

lemma drag_invoke_begin:
  assumes "\<And>s. isTouchDragDetected s \<Longrightarrow> isTouchDragDetected (reent s)"
    and "isTouchDragDetected s"
  shows "isTouchDragDetected (invoke_begin reent a i e s)"
  using assms by (simp add: invoke_begin_def drag_keep)

lemma drag_tryRunSingle:
  assumes "\<And>s. isTouchDragDetected s \<Longrightarrow> isTouchDragDetected (reent s)"
    and "isTouchDragDetected s"
  shows "isTouchDragDetected (snd (tryRunSingleActionShortcutImpl reent param e ks s))"
  using assms
  by (simp add: tryRunSingleActionShortcutImpl_def drag_keep drag_invoke_begin split: option.splits)

lemma drag_tryRunReady:
  assumes "\<And>s. isTouchDragDetected s \<Longrightarrow> isTouchDragDetected (reent s)"
    and "isTouchDragDetected s"
  shows "isTouchDragDetected (snd (tryRunReadyShortcut reent b e s))"
  using assms
  by (simp add: tryRunReadyShortcut_def Let_def drag_keep drag_invoke_begin split: option.splits)

lemma drag_fireReady:
  assumes "\<And>s. isTouchDragDetected s \<Longrightarrow> isTouchDragDetected (reent s)"
    and "isTouchDragDetected s"
  shows "isTouchDragDetected (fireReadyTouchShortcut reent e s)"
  using assms
  by (simp add: fireReadyTouchShortcut_def drag_keep drag_invoke_begin split: option.splits)

lemma drag_tryRunTouch:
  assumes "\<And>s. isTouchDragDetected s \<Longrightarrow> isTouchDragDetected (reent s)"
    and "isTouchDragDetected s"
  shows "isTouchDragDetected (snd (tryRunTouchShortcut reent e s))"
  using assms
  by (simp add: tryRunTouchShortcut_def Let_def drag_keep drag_invoke_begin split: option.splits)

lemma drag_tryRunNative:
  assumes "\<And>s. isTouchDragDetected s \<Longrightarrow> isTouchDragDetected (reent s)"
    and "isTouchDragDetected s"
  shows "isTouchDragDetected (snd (tryRunNativeGestureShortcut reent e s))"
  using assms
  by (simp add: tryRunNativeGestureShortcut_def Let_def drag_keep drag_invoke_begin
      split: option.splits)

lemma drag_keyPressed:
  assumes "\<And>s. isTouchDragDetected s \<Longrightarrow> isTouchDragDetected (reent s)"
    and "isTouchDragDetected s"
  shows "isTouchDragDetected (snd (keyPressed reent k s))"
  using assms
  by (simp add: keyPressed_def Let_def case_prod_beta drag_keep drag_tryRunSingle)

lemma drag_autoRepeated:
  assumes "\<And>s. isTouchDragDetected s \<Longrightarrow> isTouchDragDetected (reent s)"
    and "isTouchDragDetected s"
  shows "isTouchDragDetected (snd (autoRepeatedKeyPressed reent k s))"
  using assms
  by (simp add: autoRepeatedKeyPressed_def Let_def case_prod_beta drag_keep drag_tryRunSingle)

lemma drag_buttonPressed:
  assumes "\<And>s. isTouchDragDetected s \<Longrightarrow> isTouchDragDetected (reent s)"
    and "isTouchDragDetected s"
  shows "isTouchDragDetected (snd (buttonPressed reent b e s))"
  using assms
  by (simp add: buttonPressed_def Let_def case_prod_beta drag_keep drag_tryRunReady)

lemma drag_wheelEvent:
  assumes "\<And>s. isTouchDragDetected s \<Longrightarrow> isTouchDragDetected (reent s)"
    and "isTouchDragDetected s"
  shows "isTouchDragDetected (snd (wheelEvent reent w e s))"
  using assms
  by (simp add: wheelEvent_def tryRunWheelShortcut_def Let_def case_prod_beta drag_keep
      drag_tryRunSingle)

lemma drag_touchUpdate:
  assumes "\<And>s. isTouchDragDetected s \<Longrightarrow> isTouchDragDetected (reent s)"
    and "isTouchDragDetected s"
  shows "isTouchDragDetected (snd (touchUpdateEvent reent e s))"
  using assms
  by (simp add: touchUpdateEvent_def Let_def case_prod_beta detectDrag_eq drag_keep
      drag_tryRunTouch drag_invoke_begin split: option.splits)

lemma drag_touchEnd:
  assumes "\<And>s. isTouchDragDetected s \<Longrightarrow> isTouchDragDetected (reent s)"
    and "isTouchDragDetected s"
  shows "isTouchDragDetected (snd (touchEndEvent reent e s))"
  using assms
  by (simp add: touchEndEvent_def Let_def drag_keep drag_fireReady)

lemma drag_nativeGestureEvent:
  assumes "\<And>s. isTouchDragDetected s \<Longrightarrow> isTouchDragDetected (reent s)"
    and "isTouchDragDetected s"
  shows "isTouchDragDetected (snd (nativeGestureEvent reent e s))"
  using assms
  by (simp add: nativeGestureEvent_def drag_keep drag_tryRunNative split: option.splits)

lemma drag_releaseMissing:
  "isTouchDragDetected (releaseMissing ks order s) = isTouchDragDetected s"
  by (induction order arbitrary: s) (simp_all add: drag_keep)

lemma drag_pressMissing:
  assumes "\<And>s. isTouchDragDetected s \<Longrightarrow> isTouchDragDetected (reent s)"
    and "isTouchDragDetected s"
  shows "isTouchDragDetected (pressMissing reent ks s)"
  using assms(2)
proof (induction ks arbitrary: s)
  case Nil
  then show ?case by simp
next
  case (Cons k ks)
  have "isTouchDragDetected (if k \<notin> keys s then snd (keyPressed reent k s) else s)"
    using Cons.prems assms(1) by (simp add: drag_keyPressed)
  then show ?case using Cons.IH by simp
qed

lemma drag_recovery:
  assumes "\<And>s. isTouchDragDetected s \<Longrightarrow> isTouchDragDetected (reent s)"
    and "isTouchDragDetected s"
  shows "isTouchDragDetected (recoveryModifiersWithoutFocus reent order ks s)"
  using assms
  by (simp add: recoveryModifiersWithoutFocus_def Let_def drag_keep drag_releaseMissing
      drag_pressMissing)

lemma drag_exec:
  assumes "\<And>s. isTouchDragDetected s \<Longrightarrow> isTouchDragDetected (reent s)"
    and "isTouchDragDetected s" and "\<not> isTouchBeginCall c"
  shows "isTouchDragDetected (exec reent c s)"
  using assms
  by (cases c)
     (simp_all add: exec_def isTouchBeginCall_def drag_keep drag_keyPressed drag_autoRepeated
        drag_buttonPressed drag_wheelEvent drag_touchUpdate drag_touchEnd
        drag_nativeGestureEvent drag_recovery)

lemma drag_fold:
  fixes f :: "'e \<Rightarrow> matcher \<Rightarrow> matcher"
  assumes "\<And>e s. e \<in> set es \<Longrightarrow> isTouchDragDetected s \<Longrightarrow> isTouchDragDetected (f e s)"
    and "isTouchDragDetected s"
  shows "isTouchDragDetected (fold f es s)"
  using assms by (induction es arbitrary: s) simp_all

lemma drag_run:
  "noTouchBegin e \<Longrightarrow> isTouchDragDetected s \<Longrightarrow> isTouchDragDetected (run e s)"
proof (induction e arbitrary: s)
  case (Entry c nested)
  have nested: "\<And>s. isTouchDragDetected s \<Longrightarrow> isTouchDragDetected (fold run nested s)"
  proof (rule drag_fold)
    fix e and s :: matcher
    assume "e \<in> set nested" "isTouchDragDetected s"
    moreover from Entry.prems(1) \<open>e \<in> set nested\<close> have "noTouchBegin e"
      by (simp add: list_all_iff)
    ultimately show "isTouchDragDetected (run e s)" using Entry.IH by blast
  qed
  from Entry.prems have "\<not> isTouchBeginCall c" by simp
  with nested Entry.prems(2) show ?case
    by (simp add: fold_map comp_def drag_exec)
qed

lemma drag_touchUpdate_id:
  "isTouchDragDetected (snd (touchUpdateEvent (\<lambda>s. s) ev s)) =
     (isTouchDragDetected s \<or> list_ex (\<lambda>p. qgt (deltaSquared p) (Finite (of_int touchSlopSquared))) (touchPoints ev))"
  by (simp add: touchUpdateEvent_def Let_def case_prod_beta detectDrag_eq drag_keep
      tryRunTouchShortcut_def fireReadyTouchShortcut_def invoke_begin_def
      split: option.splits)

lemma drag_touchUpdate_detects:
  assumes "\<And>s. isTouchDragDetected s \<Longrightarrow> isTouchDragDetected (reent s)"
    and "list_ex (\<lambda>p. qgt (deltaSquared p) (Finite (of_int touchSlopSquared))) (touchPoints ev)"
  shows "isTouchDragDetected (snd (touchUpdateEvent reent ev s))"
  using assms
  by (simp add: touchUpdateEvent_def Let_def case_prod_beta detectDrag_eq drag_keep
      drag_tryRunTouch drag_invoke_begin split: option.splits)

lemma drag_runAll:
  "list_all noTouchBegin es \<Longrightarrow> isTouchDragDetected s \<Longrightarrow> isTouchDragDetected (runAll es s)"
  unfolding runAll_def
  by (rule drag_fold) (simp_all add: list_all_iff drag_run)

lemma drag_touchBegin:
  "\<not> isTouchDragDetected (snd (touchBeginEvent ev s))"
  by (simp add: touchBeginEvent_def Let_def RecursionNotifier_exit_def)

text \<open>
  Claim C8, as stated, fails: a squared displacement strictly above 256 need not set the
  flag. The point moved by \<open>(16, 2^-30)\<close> has the exact squared displacement
  \<open>256 + 2^-60\<close>, but in \<open>qreal\<close> arithmetic the sum rounds to \<open>256.0\<close>, the comparison
  \<open>deltaSquared > touchSlopSquared\<close> is false, and \<open>touchUpdateEvent\<close> leaves the flag
  unset.
\<close>

theorem touch_slop_rounding_counterexample:
  "256 < exactDeltaSquared (TouchPoint (16, 1 / 2 ^ 30) (0, 0)) \<and>
   deltaSquared (TouchPoint (16, 1 / 2 ^ 30) (0, 0)) = Finite 256 \<and>
   \<not> isTouchDragDetected touchBegun \<and>
   \<not> isTouchDragDetected (run (Entry (TouchUpdateEvent movedJustOver) []) touchBegun)"
proof -
  have d: "deltaSquared (TouchPoint (16, 1 / 2 ^ 30) (0, 0)) = Finite 256"
    by (rule sample_deltaSquared(3))
  have d': "deltaSquared (TouchPoint (16, 1 / 1073741824) (0, 0)) = Finite 256"
    using d by simp
  have e: "256 < exactDeltaSquared (TouchPoint (16, 1 / 2 ^ 30) (0, 0))"
    by (simp add: exactDeltaSquared_def)
  have b: "\<not> isTouchDragDetected touchBegun"
    by (simp add: touchBegun_def scenario_defs)
  have u: "\<not> isTouchDragDetected (run (Entry (TouchUpdateEvent movedJustOver) []) touchBegun)"
    by (simp add: movedJustOver_def touchBegun_def d' scenario_defs)
  from d e b u show ?thesis by simp
qed

text \<open>
  Claim C8, amended. The squared displacement that counts is the value \<open>deltaSquared\<close>
  computed in \<open>qreal\<close> (binary64) arithmetic, each subtraction, product and sum rounded.
  After a \<open>touchUpdateEvent\<close> whose actions do not re-enter, \<open>isTouchDragDetected\<close> is set
  iff it was set before or the computed \<open>deltaSquared\<close> of some touch point of the event
  is strictly greater than 256: a computed value of exactly 256 does not set it, 257
  does. A computed value above 256 sets the flag also when \<open>begin\<close> re-enters, as long as
  no nested call is a \<open>touchBeginEvent\<close>. Once set, the flag stays set through every
  sequence of entry-point calls (with their nested calls) that contains no
  \<open>touchBeginEvent\<close>; \<open>touchBeginEvent\<close> resets it.
\<close>

theorem touch_slop_boundary:
  "isTouchDragDetected (run (Entry (TouchUpdateEvent ev) []) s) =
     (isTouchDragDetected s \<or>
      list_ex (\<lambda>p. qgt (deltaSquared p) (Finite 256)) (touchPoints ev)) \<and>
   (list_ex (\<lambda>p. qgt (deltaSquared p) (Finite 256)) (touchPoints ev) \<and>
    list_all noTouchBegin nested \<longrightarrow>
      isTouchDragDetected (run (Entry (TouchUpdateEvent ev) nested) s)) \<and>
   (isTouchDragDetected s \<and> list_all noTouchBegin es \<longrightarrow> isTouchDragDetected (runAll es s)) \<and>
   \<not> isTouchDragDetected (run (Entry (TouchBeginEvent ev) nested) s)"
proof (intro conjI impI)
  show "isTouchDragDetected (run (Entry (TouchUpdateEvent ev) []) s) =
     (isTouchDragDetected s \<or>
      list_ex (\<lambda>p. qgt (deltaSquared p) (Finite 256)) (touchPoints ev))"
    using drag_touchUpdate_id [of ev s] by (simp add: exec_def touchSlopSquared_def id_def)
next
  assume a: "list_ex (\<lambda>p. qgt (deltaSquared p) (Finite 256)) (touchPoints ev) \<and>
             list_all noTouchBegin nested"
  have "\<And>s. isTouchDragDetected s \<Longrightarrow> isTouchDragDetected (fold run nested s)"
    using a drag_runAll [of nested] by (simp add: runAll_def)
  then have "isTouchDragDetected (snd (touchUpdateEvent (fold run nested) ev s))"
    using a by (intro drag_touchUpdate_detects) (simp_all add: touchSlopSquared_def)
  then show "isTouchDragDetected (run (Entry (TouchUpdateEvent ev) nested) s)"
    by (simp add: exec_def fold_map comp_def)
next
  assume "isTouchDragDetected s \<and> list_all noTouchBegin es"
  then show "isTouchDragDetected (runAll es s)" by (simp add: drag_runAll)
next
  show "\<not> isTouchDragDetected (run (Entry (TouchBeginEvent ev) nested) s)"
    by (simp add: exec_def drag_touchBegin)
qed

text \<open>
  Witness for C8: after a touch begin, the update with the point moved by \<open>(16, 0)\<close>
  (computed squared displacement 256) leaves the flag unset; the update with \<open>(16, 1)\<close>
  (257) sets it; it is still set after a further update, a key press and the touch
  end, and unset again after the next touch begin.
\<close>

theorem touch_slop_boundary_witness:
  "deltaSquared (TouchPoint (16, 0) (0, 0)) = Finite 256 \<and>
   \<not> isTouchDragDetected touchBegun \<and>
   \<not> isTouchDragDetected (run (Entry (TouchUpdateEvent moved256) []) touchBegun) \<and>
   deltaSquared (TouchPoint (16, 1) (0, 0)) = Finite 257 \<and>
   isTouchDragDetected (run (Entry (TouchUpdateEvent moved257) []) touchBegun) \<and>
   isTouchDragDetected
     (runAll [Entry (TouchUpdateEvent moved256) [], Entry (KeyPressed 65) [],
              Entry (TouchEndEvent moved256) []]
        (run (Entry (TouchUpdateEvent moved257) []) touchBegun)) \<and>
   \<not> isTouchDragDetected
       (run (Entry (TouchBeginEvent moved256) [])
          (run (Entry (TouchUpdateEvent moved257) []) touchBegun))"
proof -
  note d = sample_deltaSquared
  have b: "\<not> isTouchDragDetected touchBegun"
    by (simp add: touchBegun_def runAll_def exec_def touchBeginEvent_def copyQtPointerEvent_def
        RecursionNotifier_def RecursionNotifier_exit_def isInRecursion_def Let_def
        matcher0_def Private_init_def)
  have l: "list_all noTouchBegin [Entry (TouchUpdateEvent moved256) [], Entry (KeyPressed 65) [],
              Entry (TouchEndEvent moved256) []]"
    by (simp add: isTouchBeginCall_def)
  note t1 = touch_slop_boundary [of moved256 touchBegun "[]" "[]"]
  note t2 = touch_slop_boundary [of moved257 touchBegun "[]" "[]"]
  have p1: "\<not> isTouchDragDetected (run (Entry (TouchUpdateEvent moved256) []) touchBegun)"
    using t1 b d by (simp add: moved256_def)
  have p2: "isTouchDragDetected (run (Entry (TouchUpdateEvent moved257) []) touchBegun)"
    using t2 d by (simp add: moved257_def)
  have p3: "isTouchDragDetected
     (runAll [Entry (TouchUpdateEvent moved256) [], Entry (KeyPressed 65) [],
              Entry (TouchEndEvent moved256) []]
        (run (Entry (TouchUpdateEvent moved257) []) touchBegun))"
    using touch_slop_boundary
            [of moved256 "run (Entry (TouchUpdateEvent moved257) []) touchBegun" "[]"
              "[Entry (TouchUpdateEvent moved256) [], Entry (KeyPressed 65) [],
                Entry (TouchEndEvent moved256) []]"] p2 l by simp
  have p4: "\<not> isTouchDragDetected
       (run (Entry (TouchBeginEvent moved256) [])
          (run (Entry (TouchUpdateEvent moved257) []) touchBegun))"
    using touch_slop_boundary
            [of moved256 "run (Entry (TouchUpdateEvent moved257) []) touchBegun" "[]" "[]"]
    by blast
  from d b p1 p2 p3 p4 show ?thesis by simp
qed

subsection \<open>C1: the pairing of \<open>activate\<close> and \<open>deactivate\<close>\<close>

text \<open>
  Claim C1 says that at quiescence every action has been deactivated as often as it has
  been activated, also when \<open>clearShortcuts\<close> is called while a ready shortcut is
  activated. The code at that input: after the stroke shortcut is registered and the
  cursor has entered, the shortcut is ready and its action 7 activated;
  \<open>clearShortcuts\<close> then sets \<open>readyShortcut\<close> to null without calling \<open>deactivate\<close>. The
  matcher is quiescent with one activation and no deactivation of action 7.
\<close>

theorem clearShortcuts_drops_activated_ready_shortcut:
  "map_option ss_addr (readyShortcut (runAll (butlast clearWhileReady) matcher0)) = Some 100 \<and>
   quiescent (runAll clearWhileReady matcher0) \<and>
   calls (runAll clearWhileReady matcher0) = [(Some 7, Activate 0)] \<and>
   activations 7 (calls (runAll clearWhileReady matcher0)) = 1 \<and>
   deactivations 7 (calls (runAll clearWhileReady matcher0)) = 0"
  by (simp add: clearWhileReady_def quiescent_def activations_def deactivations_def scenario_defs)

subsection \<open>C2: at most one running slot\<close>

text \<open>
  Claim C2 says that after every entry point at most one of \<open>runningShortcut\<close>,
  \<open>touchShortcut\<close> and \<open>nativeGestureShortcut\<close> is set. The code: a native gesture event
  that arrives while a stroke runs starts the gesture shortcut and leaves the stroke
  running, so two slots are set; and a touch drag that starts while a stroke on another
  button than the left one runs leaves that stroke running as well.
\<close>

theorem two_running_slots_after_native_gesture:
  "map_option ss_addr (runningShortcut (runAll gestureDuringStroke matcher0)) = Some 100 \<and>
   map_option ng_addr (nativeGestureShortcut (runAll gestureDuringStroke matcher0)) = Some 400 \<and>
   map_option ss_addr (runningShortcut strokeAndTouchRunning) = Some 101 \<and>
   map_option ts_addr (touchShortcut strokeAndTouchRunning) = Some 300"
  by (simp add: gestureDuringStroke_def strokeAndTouchRunning_def strokeRunning_def
      dragEvent_def scenario_defs)

subsection \<open>C4: recovery after a \<open>begin\<close> broken by recursion\<close>

text \<open>
  Claim C4 says that when the guard around \<open>begin\<close> reports \<open>brokenByRecursion\<close>, the
  running action receives \<open>end\<close> and \<open>deactivate\<close> and the slot is cleared. The code: the
  stroke's \<open>begin\<close> re-enters with \<open>keyPressed(27)\<close>; on return the action receives \<open>end\<close>
  and \<open>runningShortcut\<close> is cleared, but \<open>forceDeactivateAllActions\<close> only deactivates a
  ready shortcut, and there is none: the activated action 7 is never deactivated.
\<close>

theorem broken_begin_is_ended_but_not_deactivated:
  "calls (runAll reentrantBegin matcher0) =
     [(Some 7, Activate 0), (Some 7, Begin 0 (Some (QPointerEvent 1))),
      (Some 7, End (Some (QPointerEvent 1)))] \<and>
   quiescent (runAll reentrantBegin matcher0) \<and>
   activations 7 (calls (runAll reentrantBegin matcher0)) = 1 \<and>
   deactivations 7 (calls (runAll reentrantBegin matcher0)) = 0"
  by (simp add: reentrantBegin_def quiescent_def activations_def deactivations_def scenario_defs)

subsection \<open>C9: what \<open>clearShortcuts\<close> releases\<close>

text \<open>
  Claim C9 says that after \<open>clearShortcuts\<close> all four catalogues are empty and no later
  event can invoke the action of a previously registered shortcut. The code: the list of
  native gesture shortcuts is neither deleted nor cleared, so the gesture shortcut
  registered before \<open>clearShortcuts\<close> is still there, and the next native gesture event
  activates and begins its action 13.
\<close>

theorem clearShortcuts_keeps_native_gesture_shortcuts:
  "map ng_addr (nativeGestureShortcuts
                  (clearShortcuts (addShortcut_nativeGesture gestureN matcher0))) = [400] \<and>
   400 \<notin> deleted (clearShortcuts (addShortcut_nativeGesture gestureN matcher0)) \<and>
   calls (runAll gestureAfterClear matcher0) =
     [(Some 13, Activate 0), (Some 13, Begin 0 (Some (QNativeGestureEvent 5)))]"
  by (simp add: gestureAfterClear_def scenario_defs)

end
